theory Spec2Isabelle
  imports Complex_Main
begin

section \<open>Python values\<close>

text \<open>
  The processor reads its inputs from the AutoPkg environment, a dictionary from
  variable names to arbitrary values: the values a recipe's property list can
  hold (booleans, integers, reals, strings, lists, dictionaries) and \<^verbatim>\<open>None\<close> for
  a variable that is not set. A float is modelled by the real number it stands
  for, so the infinities and NaN are left out. A string is a byte string: a
  Python string in UTF-8.
\<close>

datatype pyval =
    PNone
  | PBool bool
  | PInt int
  | PFloat real
  | PStr string
  | PList "pyval list"
  | PDict "(string \<times> pyval) list"

text \<open>Python truthiness, as used by \<^verbatim>\<open>if x:\<close> and \<^verbatim>\<open>not x\<close>.\<close>

fun truthy :: "pyval \<Rightarrow> bool" where
  "truthy PNone = False"
| "truthy (PBool b) = b"
| "truthy (PInt n) = (n \<noteq> 0)"
| "truthy (PFloat x) = (x \<noteq> 0)"
| "truthy (PStr s) = (s \<noteq> [])"
| "truthy (PList xs) = (xs \<noteq> [])"
| "truthy (PDict kvs) = (kvs \<noteq> [])"

datatype error =
    ProcessorError string
  | TypeError
  | ValueError
  | AttributeError
  | OSError
  | OverflowError

subsection \<open>Strings of ASCII characters\<close>

text \<open>
  On a string of ASCII characters \<^verbatim>\<open>str.upper\<close> changes the letters a to z and
  nothing else, and \<^verbatim>\<open>int\<close> reads base 10: white space (tab, line feed,
  vertical tab, form feed, carriage return, space) is stripped from both ends,
  then comes an optional sign and then digits, with single underscores allowed
  between digits.
\<close>

definition is_ascii :: "char \<Rightarrow> bool" where
  "is_ascii c = ((of_char c :: nat) < 128)"

definition is_lower :: "char \<Rightarrow> bool" where
  "is_lower c = (let k = (of_char c :: nat) in 97 \<le> k \<and> k \<le> 122)"

definition upper_char :: "char \<Rightarrow> char" where
  "upper_char c = (if is_lower c then char_of ((of_char c :: nat) - 32) else c)"

definition is_py_space :: "char \<Rightarrow> bool" where
  "is_py_space c = (let k = (of_char c :: nat) in (9 \<le> k \<and> k \<le> 13) \<or> k = 32)"

definition strip :: "string \<Rightarrow> string" where
  "strip s = rev (dropWhile is_py_space (rev (dropWhile is_py_space s)))"

definition digit_val :: "char \<Rightarrow> int option" where
  "digit_val c = (let k = (of_char c :: nat) in
     if 48 \<le> k \<and> k \<le> 57 then Some (int k - 48) else None)"

fun parse_digits :: "int \<Rightarrow> string \<Rightarrow> int option" where
  "parse_digits acc [] = None"
| "parse_digits acc [c] = map_option (\<lambda>d. 10 * acc + d) (digit_val c)"
| "parse_digits acc (c # c' # cs) =
     (case digit_val c of
        None \<Rightarrow> None
      | Some d \<Rightarrow>
          if c' = CHR ''_'' then parse_digits (10 * acc + d) cs
          else parse_digits (10 * acc + d) (c' # cs))"

definition py_int_str :: "string \<Rightarrow> int option" where
  "py_int_str s =
     (case strip s of
        [] \<Rightarrow> None
      | c # cs \<Rightarrow>
          if c = CHR ''-'' then map_option uminus (parse_digits 0 cs)
          else if c = CHR ''+'' then parse_digits 0 cs
          else parse_digits 0 (c # cs))"

subsection \<open>\<^verbatim>\<open>in\<close> and \<^verbatim>\<open>os.path.basename\<close>\<close>

text \<open>\<^verbatim>\<open>"/" in x\<close>: substring test on a string, membership on a list, key
  membership on a dictionary, \<^verbatim>\<open>TypeError\<close> on a value that is not iterable.\<close>

fun py_contains_slash :: "pyval \<Rightarrow> error + bool" where
  "py_contains_slash (PStr s) = Inr (CHR ''/'' \<in> set s)"
| "py_contains_slash (PList xs) = Inr (PStr ''/'' \<in> set xs)"
| "py_contains_slash (PDict kvs) = Inr (''/'' \<in> set (map fst kvs))"
| "py_contains_slash v = Inl TypeError"

definition basename :: "string \<Rightarrow> string" where
  "basename p = rev (takeWhile (\<lambda>c. c \<noteq> CHR ''/'') (rev p))"

fun py_basename :: "pyval \<Rightarrow> error + pyval" where
  "py_basename (PStr p) = Inr (PStr (basename p))"
| "py_basename v = Inl TypeError"

section \<open>Collaborators and effects\<close>

text \<open>
  The base class \<^verbatim>\<open>JamfUploaderBase\<close>, the operating system and the parts of
  Python's text handling that are not modelled are outside the processor. They
  are parameters of the model: any of them may raise, and nothing is assumed
  about what they return. The HTTP transport \<^verbatim>\<open>curl\<close> additionally receives the
  number of the attempt, so that the server may answer differently each time.
  \<open>path_exists\<close> and \<open>read_text\<close> are the file system, \<open>time_sleep\<close> is
  \<^verbatim>\<open>time.sleep\<close>, \<open>py_format\<close> is \<^verbatim>\<open>str.format\<close>, and \<open>int_of_other_text\<close> and
  \<open>upper_of_other_text\<close> are \<^verbatim>\<open>int\<close> and \<^verbatim>\<open>str.upper\<close> on the strings the
  ASCII definitions above do not cover.
\<close>

datatype response = Response (status_code: pyval) (content: pyval)

record world =
  handle_uapi_auth :: "pyval \<Rightarrow> pyval \<Rightarrow> pyval \<Rightarrow> error + pyval"
  get_uapi_obj_id_from_name :: "pyval \<Rightarrow> string \<Rightarrow> pyval \<Rightarrow> pyval \<Rightarrow> error + pyval"
  get_path_to_file :: "pyval \<Rightarrow> error + pyval"
  substitute_assignable_keys :: "string \<Rightarrow> error + string"
  write_json_file :: "pyval \<Rightarrow> error + pyval"
  api_endpoints :: "string \<Rightarrow> error + pyval"
  curl :: "nat \<Rightarrow> string \<Rightarrow> string \<Rightarrow> pyval \<Rightarrow> pyval \<Rightarrow> error + response"
  status_check :: "response \<Rightarrow> string \<Rightarrow> pyval \<Rightarrow> string \<Rightarrow> error + pyval"
  path_exists :: "pyval \<Rightarrow> error + bool"
  read_text :: "pyval \<Rightarrow> error + string"
  time_sleep :: "int \<Rightarrow> error + unit"
  py_format :: "string \<Rightarrow> pyval list \<Rightarrow> string"
  int_of_other_text :: "string \<Rightarrow> error + int"
  upper_of_other_text :: "string \<Rightarrow> string"

text \<open>\<^verbatim>\<open>str(x)\<close> is \<^verbatim>\<open>"{}".format(x)\<close>.\<close>

definition py_str :: "world \<Rightarrow> pyval \<Rightarrow> pyval" where
  "py_str W v = PStr (py_format W ''{}'' [v])"

text \<open>
  \<^verbatim>\<open>x.upper()\<close>: a value that is not a string has no such method. A string with
  a character outside ASCII is upper-cased by Python's Unicode rules, which are
  a parameter.
\<close>

fun py_upper :: "world \<Rightarrow> pyval \<Rightarrow> error + pyval" where
  "py_upper W (PStr s) =
     Inr (PStr (if list_all is_ascii s then map upper_char s else upper_of_other_text W s))"
| "py_upper W v = Inl AttributeError"

text \<open>
  \<^verbatim>\<open>int(x)\<close>: an integer is itself, a boolean is 0 or 1, a float is truncated
  towards zero, and a string of at most 4300 ASCII characters is read as above.
  A longer string (the interpreter may limit the number of digits) or one with
  a character outside ASCII (Unicode digits and spaces count too) is read by the
  parameter. Anything else is a \<^verbatim>\<open>TypeError\<close>.
\<close>

fun py_int :: "world \<Rightarrow> pyval \<Rightarrow> error + int" where
  "py_int W (PInt n) = Inr n"
| "py_int W (PBool b) = Inr (if b then 1 else 0)"
| "py_int W (PFloat x) = Inr (if 0 \<le> x then \<lfloor>x\<rfloor> else \<lceil>x\<rceil>)"
| "py_int W (PStr s) =
     (if list_all is_ascii s \<and> length s \<le> 4300
      then (case py_int_str s of None \<Rightarrow> Inl ValueError | Some n \<Rightarrow> Inr n)
      else int_of_other_text W s)"
| "py_int W v = Inl TypeError"

text \<open>
  \<^verbatim>\<open>os.path.exists(x)\<close> and \<^verbatim>\<open>open(x, "r").read()\<close>: a string is a path and an
  integer (or boolean) a file descriptor; any other value is a \<^verbatim>\<open>TypeError\<close>.
  The empty path does not exist, and a path that is empty or ends in \<^verbatim>\<open>/\<close>
  cannot be opened: it names a directory or nothing.
\<close>

fun py_exists :: "world \<Rightarrow> pyval \<Rightarrow> error + bool" where
  "py_exists W (PStr p) = (if p = [] then Inr False else path_exists W (PStr p))"
| "py_exists W (PInt n) = path_exists W (PInt n)"
| "py_exists W (PBool b) = path_exists W (PBool b)"
| "py_exists W v = Inl TypeError"

fun py_open_read :: "world \<Rightarrow> pyval \<Rightarrow> error + string" where
  "py_open_read W (PStr p) =
     (if p = [] \<or> last p = CHR ''/'' then Inl OSError else read_text W (PStr p))"
| "py_open_read W (PInt n) = read_text W (PInt n)"
| "py_open_read W (PBool b) = read_text W (PBool b)"
| "py_open_read W v = Inl TypeError"

text \<open>
  What an invocation does to the outside, in order: messages printed with
  \<^verbatim>\<open>self.output\<close> (with their verbosity level), the network calls, the JSON file
  written, and the pauses.
\<close>

datatype event =
    Output pyval nat
  | Auth pyval pyval pyval
  | Lookup pyval string pyval pyval
  | WriteJson pyval
  | Curl nat string string pyval pyval
  | Sleep int

fun is_curl :: "event \<Rightarrow> bool" where
  "is_curl (Curl n request url token data) = True"
| "is_curl ev = False"

fun is_sleep :: "event \<Rightarrow> bool" where
  "is_sleep (Sleep n) = True"
| "is_sleep ev = False"

fun is_network :: "event \<Rightarrow> bool" where
  "is_network (Auth url user pw) = True"
| "is_network (Lookup url obj_type obj_name token) = True"
| "is_network (Curl n request url token data) = True"
| "is_network ev = False"

text \<open>The state of an invocation: the AutoPkg environment \<^verbatim>\<open>self.env\<close> and
  the events so far.\<close>

record st =
  env :: "string \<rightharpoonup> pyval"
  trace :: "event list"

type_synonym 'a act = "st \<Rightarrow> (error + 'a) \<times> st"

definition ret :: "'a \<Rightarrow> 'a act" where
  "ret x s = (Inr x, s)"

definition raise :: "error \<Rightarrow> 'a act" where
  "raise e s = (Inl e, s)"

definition lift :: "error + 'a \<Rightarrow> 'a act" where
  "lift r s = (r, s)"

definition bnd :: "'a act \<Rightarrow> ('a \<Rightarrow> 'b act) \<Rightarrow> 'b act" where
  "bnd m f s = (case m s of (Inl e, s') \<Rightarrow> (Inl e, s') | (Inr x, s') \<Rightarrow> f x s')"

definition emit :: "event \<Rightarrow> unit act" where
  "emit ev s = (Inr (), s\<lparr>trace := trace s @ [ev]\<rparr>)"

definition say :: "pyval \<Rightarrow> nat \<Rightarrow> unit act" where
  "say msg verbose_level = emit (Output msg verbose_level)"

definition env_get :: "(string \<rightharpoonup> pyval) \<Rightarrow> string \<Rightarrow> pyval" where
  "env_get e k = (case e k of None \<Rightarrow> PNone | Some v \<Rightarrow> v)"

definition env_set :: "string \<Rightarrow> pyval \<Rightarrow> unit act" where
  "env_set k v s = (Inr (), s\<lparr>env := (env s)(k \<mapsto> v)\<rparr>)"

definition env_del :: "string \<Rightarrow> unit act" where
  "env_del k s = (Inr (), s\<lparr>env := (env s)(k := None)\<rparr>)"

definition call_auth :: "world \<Rightarrow> pyval \<Rightarrow> pyval \<Rightarrow> pyval \<Rightarrow> pyval act" where
  "call_auth W url user pw =
     bnd (emit (Auth url user pw)) (\<lambda>_. lift (handle_uapi_auth W url user pw))"

definition call_lookup :: "world \<Rightarrow> pyval \<Rightarrow> string \<Rightarrow> pyval \<Rightarrow> pyval \<Rightarrow> pyval act" where
  "call_lookup W url obj_type obj_name token =
     bnd (emit (Lookup url obj_type obj_name token))
       (\<lambda>_. lift (get_uapi_obj_id_from_name W url obj_type obj_name token))"

definition call_write_json :: "world \<Rightarrow> pyval \<Rightarrow> pyval act" where
  "call_write_json W d = bnd (emit (WriteJson d)) (\<lambda>_. lift (write_json_file W d))"

definition call_sleep :: "world \<Rightarrow> int \<Rightarrow> unit act" where
  "call_sleep W n = bnd (emit (Sleep n)) (\<lambda>_. lift (time_sleep W n))"

definition call_curl :: "world \<Rightarrow> nat \<Rightarrow> string \<Rightarrow> string \<Rightarrow> pyval \<Rightarrow> pyval \<Rightarrow> response act" where
  "call_curl W n request url token d =
     bnd (emit (Curl n request url token d)) (\<lambda>_. lift (curl W n request url token d))"

section \<open>\<^verbatim>\<open>upload_script\<close>\<close>

text \<open>
  One pass through the body of the \<^verbatim>\<open>while True\<close> loop (lines 222--239), for
  the value \<open>count\<close> has after its increment. The pause of lines 236--239 is
  \<open>retry_sleep\<close>.
\<close>

datatype 'a ctl = Break 'a | Continue

definition retry_sleep :: "world \<Rightarrow> pyval \<Rightarrow> unit act" where
  "retry_sleep W sleep_arg =
     bnd (lift (py_int W sleep_arg)) (\<lambda>n.
       if n > 30 then bnd (lift (py_int W sleep_arg)) (\<lambda>m. call_sleep W m)
       else call_sleep W 30)"

text \<open>Line 227: \<^verbatim>\<open>"PUT" if obj_id else "POST"\<close>.\<close>

definition request_method :: "pyval \<Rightarrow> string" where
  "request_method obj_id = (if truthy obj_id then ''PUT'' else ''POST'')"

definition upload_attempt ::
  "world \<Rightarrow> pyval \<Rightarrow> pyval \<Rightarrow> pyval \<Rightarrow> string \<Rightarrow> pyval \<Rightarrow> pyval \<Rightarrow> nat \<Rightarrow> response ctl act" where
  "upload_attempt W sleep_arg script_name obj_id url token script_json count =
     bnd (say (PStr (py_format W ''Script upload attempt {}'' [PInt (int count)])) 2) (\<lambda>_.
     let request = request_method obj_id in
     bnd (call_curl W count request url token script_json) (\<lambda>r.
     bnd (lift (status_check W r ''Script'' script_name request)) (\<lambda>verdict.
       if verdict = PStr ''break'' then ret (Break r)
       else if count > 5 then
         bnd (say (PStr ''Script upload did not succeed after 5 attempts'') 1) (\<lambda>_.
         bnd (say (PStr (py_format W (CHR 0x0A # ''HTTP POST Response Code: {}'')
                           [status_code r])) 1) (\<lambda>_.
         raise (ProcessorError ''ERROR: Script upload failed '')))
       else bnd (retry_sleep W sleep_arg) (\<lambda>_. ret Continue))))"

lemma upload_attempt_Continue:
  assumes "upload_attempt W sleep_arg script_name obj_id url token script_json count s =
             (Inr Continue, s')"
  shows "count \<le> 5"
proof (rule ccontr)
  assume "\<not> count \<le> 5"
  then have "count > 5" by simp
  with assms show False
    by (auto simp: upload_attempt_def bnd_def say_def emit_def call_curl_def lift_def
        ret_def raise_def Let_def split: sum.splits if_splits prod.splits)
qed

function upload_loop ::
  "world \<Rightarrow> pyval \<Rightarrow> pyval \<Rightarrow> pyval \<Rightarrow> string \<Rightarrow> pyval \<Rightarrow> pyval \<Rightarrow> nat \<Rightarrow> response act" where
  "upload_loop W sleep_arg script_name obj_id url token script_json count s =
     (case upload_attempt W sleep_arg script_name obj_id url token script_json (count + 1) s of
        (Inl e, s') \<Rightarrow> (Inl e, s')
      | (Inr (Break r), s') \<Rightarrow> (Inr r, s')
      | (Inr Continue, s') \<Rightarrow>
          upload_loop W sleep_arg script_name obj_id url token script_json (count + 1) s')"
  by pat_completeness auto
termination
proof (relation "measure (\<lambda>(W, sleep_arg, script_name, obj_id, url, token, script_json, count, s). 6 - count)")
  show "wf (measure (\<lambda>(W, sleep_arg, script_name, obj_id, url, token, script_json, count, s). 6 - count))"
    by simp
next
  fix W sleep_arg script_name obj_id url token script_json count s x1 s' x2
  assume "(x1, s') = upload_attempt W sleep_arg script_name obj_id url token script_json (count + 1) s"
    and "x1 = Inr x2" and "x2 = Continue"
  then have "upload_attempt W sleep_arg script_name obj_id url token script_json (count + 1) s
               = (Inr Continue, s')"
    by simp
  then have "count + 1 \<le> 5" by (rule upload_attempt_Continue)
  then show "((W, sleep_arg, script_name, obj_id, url, token, script_json, count + 1, s'),
              (W, sleep_arg, script_name, obj_id, url, token, script_json, count, s))
             \<in> measure (\<lambda>(W, sleep_arg, script_name, obj_id, url, token, script_json, count, s). 6 - count)"
    by simp
qed

declare upload_loop.simps [simp del]

text \<open>
  \<^verbatim>\<open>upload_script\<close> (lines 142--240) in two parts. \<open>build_request\<close> is
  lines 166--218: read the file, substitute the keys, normalise the priority,
  build the record, write it as JSON and choose the URL. \<open>upload_script\<close> then
  runs the loop of lines 220--240 from \<open>count = 0\<close>. \<open>sleep_arg\<close> is the value of
  the attribute \<^verbatim>\<open>self.sleep\<close> that the loop reads.
\<close>

definition script_record ::
  "pyval \<Rightarrow> pyval \<Rightarrow> pyval \<Rightarrow> pyval \<Rightarrow> pyval \<Rightarrow> pyval \<Rightarrow> pyval \<Rightarrow> pyval \<Rightarrow> pyval \<Rightarrow>
   pyval \<Rightarrow> pyval \<Rightarrow> pyval \<Rightarrow> pyval \<Rightarrow> pyval \<Rightarrow> pyval \<Rightarrow> string \<Rightarrow> pyval" where
  "script_record script_name script_info script_notes script_priority category_id
     script_category script_parameter4 script_parameter5 script_parameter6 script_parameter7
     script_parameter8 script_parameter9 script_parameter10 script_parameter11
     script_os_requirements script_contents =
   PDict [
     (''name'', script_name),
     (''info'', script_info),
     (''notes'', script_notes),
     (''priority'', script_priority),
     (''categoryId'', category_id),
     (''categoryName'', script_category),
     (''parameter4'', script_parameter4),
     (''parameter5'', script_parameter5),
     (''parameter6'', script_parameter6),
     (''parameter7'', script_parameter7),
     (''parameter8'', script_parameter8),
     (''parameter9'', script_parameter9),
     (''parameter10'', script_parameter10),
     (''parameter11'', script_parameter11),
     (''osRequirements'', script_os_requirements),
     (''scriptContents'', PStr script_contents)]"

text \<open>Lines 213--218: with an object id the URL ends in the id, without one it
  is the endpoint itself.\<close>

definition object_url :: "world \<Rightarrow> pyval \<Rightarrow> pyval \<Rightarrow> pyval \<Rightarrow> string" where
  "object_url W jamf_url endpoint obj_id =
     (if truthy obj_id then py_format W ''{}/{}/{}'' [jamf_url, endpoint, obj_id]
      else py_format W ''{}/{}'' [jamf_url, endpoint])"

definition build_request ::
  "world \<Rightarrow> pyval \<Rightarrow> pyval \<Rightarrow> pyval \<Rightarrow> pyval \<Rightarrow> pyval \<Rightarrow> pyval \<Rightarrow> pyval \<Rightarrow> pyval \<Rightarrow>
   pyval \<Rightarrow> pyval \<Rightarrow> pyval \<Rightarrow> pyval \<Rightarrow> pyval \<Rightarrow> pyval \<Rightarrow> pyval \<Rightarrow> pyval \<Rightarrow> pyval \<Rightarrow>
   pyval \<Rightarrow> (pyval \<times> string) act" where
  "build_request W jamf_url script_name script_path category_id script_category
     script_info script_notes script_priority script_parameter4 script_parameter5
     script_parameter6 script_parameter7 script_parameter8 script_parameter9
     script_parameter10 script_parameter11 script_os_requirements obj_id =
   bnd (lift (py_exists W script_path)) (\<lambda>found.
   bnd (if found then lift (py_open_read W script_path)
        else raise (ProcessorError ''Script does not exist!'')) (\<lambda>script_contents.
   bnd (lift (substitute_assignable_keys W script_contents)) (\<lambda>script_contents.
   bnd (if truthy script_priority then lift (py_upper W script_priority)
        else ret script_priority) (\<lambda>script_priority.
   let script_data = script_record script_name script_info script_notes script_priority
         category_id script_category script_parameter4 script_parameter5 script_parameter6
         script_parameter7 script_parameter8 script_parameter9 script_parameter10
         script_parameter11 script_os_requirements script_contents in
   bnd (say (PStr ''Script data:'') 2) (\<lambda>_.
   bnd (say script_data 2) (\<lambda>_.
   bnd (call_write_json W script_data) (\<lambda>script_json.
   bnd (say (PStr ''Uploading script..'') 1) (\<lambda>_.
   bnd (lift (api_endpoints W ''script'')) (\<lambda>endpoint.
   let url = object_url W jamf_url endpoint obj_id in
   ret (script_json, url))))))))))"

definition upload_script ::
  "world \<Rightarrow> pyval \<Rightarrow> pyval \<Rightarrow> pyval \<Rightarrow> pyval \<Rightarrow> pyval \<Rightarrow> pyval \<Rightarrow> pyval \<Rightarrow> pyval \<Rightarrow> pyval \<Rightarrow>
   pyval \<Rightarrow> pyval \<Rightarrow> pyval \<Rightarrow> pyval \<Rightarrow> pyval \<Rightarrow> pyval \<Rightarrow> pyval \<Rightarrow> pyval \<Rightarrow> pyval \<Rightarrow>
   pyval \<Rightarrow> pyval \<Rightarrow> response act" where
  "upload_script W sleep_arg jamf_url script_name script_path category_id script_category
     script_info script_notes script_priority script_parameter4 script_parameter5
     script_parameter6 script_parameter7 script_parameter8 script_parameter9
     script_parameter10 script_parameter11 script_os_requirements token obj_id =
   bnd (build_request W jamf_url script_name script_path category_id script_category
          script_info script_notes script_priority script_parameter4 script_parameter5
          script_parameter6 script_parameter7 script_parameter8 script_parameter9
          script_parameter10 script_parameter11 script_os_requirements obj_id)
     (\<lambda>(script_json, url).
        upload_loop W sleep_arg script_name obj_id url token script_json 0)"

section \<open>\<^verbatim>\<open>main\<close>\<close>

text \<open>The attributes \<^verbatim>\<open>main\<close> stores on \<^verbatim>\<open>self\<close> (lines 244--266).\<close>

record self =
  self_jamf_url :: pyval
  self_jamf_user :: pyval
  self_jamf_password :: pyval
  self_script_path :: pyval
  self_script_name :: pyval
  self_script_category :: pyval
  self_script_priority :: pyval
  self_osrequirements :: pyval
  self_script_info :: pyval
  self_script_notes :: pyval
  self_script_parameter4 :: pyval
  self_script_parameter5 :: pyval
  self_script_parameter6 :: pyval
  self_script_parameter7 :: pyval
  self_script_parameter8 :: pyval
  self_script_parameter9 :: pyval
  self_script_parameter10 :: pyval
  self_script_parameter11 :: pyval
  self_replace :: pyval
  self_sleep :: pyval

text \<open>Lines 264--266: a falsy \<^verbatim>\<open>replace_script\<close>, or the string \<^verbatim>\<open>"False"\<close>,
  becomes \<^verbatim>\<open>False\<close>; any other value is kept.\<close>

definition handle_replace :: "pyval \<Rightarrow> pyval" where
  "handle_replace r = (if \<not> truthy r \<or> r = PStr ''False'' then PBool False else r)"

definition read_inputs :: "(string \<rightharpoonup> pyval) \<Rightarrow> self" where
  "read_inputs e = \<lparr>
     self_jamf_url = env_get e ''JSS_URL'',
     self_jamf_user = env_get e ''API_USERNAME'',
     self_jamf_password = env_get e ''API_PASSWORD'',
     self_script_path = env_get e ''script_path'',
     self_script_name = env_get e ''script_name'',
     self_script_category = env_get e ''script_category'',
     self_script_priority = env_get e ''script_priority'',
     self_osrequirements = env_get e ''osrequirements'',
     self_script_info = env_get e ''script_info'',
     self_script_notes = env_get e ''script_notes'',
     self_script_parameter4 = env_get e ''script_parameter4'',
     self_script_parameter5 = env_get e ''script_parameter5'',
     self_script_parameter6 = env_get e ''script_parameter6'',
     self_script_parameter7 = env_get e ''script_parameter7'',
     self_script_parameter8 = env_get e ''script_parameter8'',
     self_script_parameter9 = env_get e ''script_parameter9'',
     self_script_parameter10 = env_get e ''script_parameter10'',
     self_script_parameter11 = env_get e ''script_parameter11'',
     self_replace = handle_replace (env_get e ''replace_script''),
     self_sleep = env_get e ''sleep'' \<rparr>"

text \<open>Lines 276--299: the category's id, or \<^verbatim>\<open>"-1"\<close>. Returns the (possibly
  reset) category name and the id.\<close>

definition resolve_category :: "world \<Rightarrow> pyval \<Rightarrow> pyval \<Rightarrow> pyval \<Rightarrow> (pyval \<times> pyval) act" where
  "resolve_category W jamf_url script_category token =
     (if truthy script_category then
        bnd (say (PStr (py_format W ''Checking categories for {}'' [script_category])) 1) (\<lambda>_.
        bnd (call_lookup W jamf_url ''category'' script_category token) (\<lambda>category_id.
          if \<not> truthy category_id then
            bnd (say (PStr ''WARNING: Category not found!'') 1) (\<lambda>_.
            ret (script_category, PStr ''-1''))
          else
            bnd (say (PStr (py_format W ''Category {} found: ID={}''
                              [script_category, category_id])) 1) (\<lambda>_.
            ret (script_category, category_id))))
      else ret (PStr [], PStr ''-1''))"

text \<open>Lines 301--307: a path without \<^verbatim>\<open>/\<close> is looked up among the recipe's
  search directories.\<close>

definition resolve_path :: "world \<Rightarrow> pyval \<Rightarrow> pyval act" where
  "resolve_path W script_path =
     bnd (lift (py_contains_slash script_path)) (\<lambda>has_slash.
       if \<not> has_slash then
         bnd (lift (get_path_to_file W script_path)) (\<lambda>found_template.
           if truthy found_template then ret found_template
           else raise (ProcessorError
                         (py_format W ''ERROR: Script file {} not found'' [script_path])))
       else ret script_path)"

text \<open>Lines 309--311: the name defaults to the file name.\<close>

definition resolve_name :: "pyval \<Rightarrow> pyval \<Rightarrow> pyval act" where
  "resolve_name script_name script_path =
     (if \<not> truthy script_name then lift (py_basename script_path) else ret script_name)"

definition SUMMARY :: string where
  "SUMMARY = ''jamfscriptuploader_summary_result''"

text \<open>Lines 244--266: the inputs are read from the environment.\<close>

definition get_inputs :: "self act" where
  "get_inputs s = (Inr (read_inputs (env s)), s)"

text \<open>Lines 268--270: a summary left by an earlier run is removed.\<close>

definition clear_summary :: "unit act" where
  "clear_summary s = (if env s SUMMARY \<noteq> None then env_del SUMMARY s else ret () s)"

text \<open>
  Lines 273--328: authentication, category, path, name, and the look-up of an
  existing script. Returns the updated attributes, the token, the category id
  and the object id found.
\<close>

definition resolve :: "world \<Rightarrow> self \<Rightarrow> (self \<times> pyval \<times> pyval \<times> pyval) act" where
  "resolve W slf =
     bnd (call_auth W (self_jamf_url slf) (self_jamf_user slf) (self_jamf_password slf)) (\<lambda>token.
     bnd (resolve_category W (self_jamf_url slf) (self_script_category slf) token)
       (\<lambda>(script_category, category_id).
     let slf = slf\<lparr>self_script_category := script_category\<rparr> in
     bnd (resolve_path W (self_script_path slf)) (\<lambda>script_path.
     let slf = slf\<lparr>self_script_path := script_path\<rparr> in
     bnd (resolve_name (self_script_name slf) (self_script_path slf)) (\<lambda>script_name.
     let slf = slf\<lparr>self_script_name := script_name\<rparr> in
     bnd (say (PStr (py_format W ''Checking for existing '{}' on {}''
                       [self_script_name slf, self_jamf_url slf])) 1) (\<lambda>_.
     bnd (say (PStr (py_format W ''Full path: {}'' [self_script_path slf])) 2) (\<lambda>_.
     bnd (call_lookup W (self_jamf_url slf) ''script'' (self_script_name slf) token) (\<lambda>obj_id.
     ret (slf, token, category_id, obj_id))))))))"

text \<open>Lines 244--328 of \<^verbatim>\<open>main\<close>: everything before the decision.\<close>

definition prepare :: "world \<Rightarrow> (self \<times> pyval \<times> pyval \<times> pyval) act" where
  "prepare W = bnd get_inputs (\<lambda>slf. bnd clear_summary (\<lambda>_. resolve W slf))"

text \<open>Lines 370--412: the outcome is recorded in the environment.\<close>

definition summary_result :: "world \<Rightarrow> self \<Rightarrow> pyval" where
  "summary_result W slf = PDict [
     (''summary_text'',
        PStr ''The following scripts were created or updated in Jamf Pro:''),
     (''report_fields'', PList (map PStr [''script'', ''path'', ''category'', ''priority'',
        ''os_req'', ''info'', ''notes'', ''P4'', ''P5'', ''P6'', ''P7'', ''P8'', ''P9'',
        ''P10'', ''P11''])),
     (''data'', PDict [
        (''script'', self_script_name slf),
        (''path'', self_script_path slf),
        (''category'', self_script_category slf),
        (''priority'', py_str W (self_script_priority slf)),
        (''info'', self_script_info slf),
        (''os_req'', self_osrequirements slf),
        (''notes'', self_script_notes slf),
        (''P4'', self_script_parameter4 slf),
        (''P5'', self_script_parameter5 slf),
        (''P6'', self_script_parameter6 slf),
        (''P7'', self_script_parameter7 slf),
        (''P8'', self_script_parameter8 slf),
        (''P9'', self_script_parameter9 slf),
        (''P10'', self_script_parameter10 slf),
        (''P11'', self_script_parameter11 slf)])]"

definition report :: "world \<Rightarrow> self \<Rightarrow> unit act" where
  "report W slf =
     (let script_uploaded = True in
      bnd (env_set ''script_name'' (self_script_name slf)) (\<lambda>_.
      bnd (env_set ''script_uploaded'' (PBool script_uploaded)) (\<lambda>_.
      if script_uploaded then env_set SUMMARY (summary_result W slf) else ret ())))"

text \<open>Lines 348--412: upload, then report.\<close>

definition upload_and_report :: "world \<Rightarrow> self \<Rightarrow> pyval \<Rightarrow> pyval \<Rightarrow> pyval \<Rightarrow> unit act" where
  "upload_and_report W slf token category_id obj_id =
     bnd (upload_script W (self_sleep slf) (self_jamf_url slf) (self_script_name slf)
            (self_script_path slf) category_id (self_script_category slf)
            (self_script_info slf) (self_script_notes slf) (self_script_priority slf)
            (self_script_parameter4 slf) (self_script_parameter5 slf)
            (self_script_parameter6 slf) (self_script_parameter7 slf)
            (self_script_parameter8 slf) (self_script_parameter9 slf)
            (self_script_parameter10 slf) (self_script_parameter11 slf)
            (self_osrequirements slf) token obj_id) (\<lambda>r. report W slf)"

text \<open>\<^verbatim>\<open>main\<close>: lines 330--346 decide between leaving an existing script alone
  (the early \<^verbatim>\<open>return\<close>) and uploading.\<close>

definition main :: "world \<Rightarrow> unit act" where
  "main W =
     bnd (prepare W) (\<lambda>(slf, token, category_id, obj_id).
       if truthy obj_id then
         bnd (say (PStr (py_format W ''Script '{}' already exists: ID {}''
                           [self_script_name slf, obj_id])) 1) (\<lambda>_.
           if truthy (self_replace slf) then
             bnd (say (PStr (py_format W
                    ''Replacing existing script as 'replace_script' is set to {}''
                    [self_replace slf])) 1) (\<lambda>_.
             upload_and_report W slf token category_id obj_id)
           else
             say (PStr ''Not replacing existing script. Use replace_script='True' to enforce.'') 1)
       else upload_and_report W slf token category_id obj_id)"

text \<open>One invocation, started on environment \<open>e\<close> with nothing done yet.\<close>

definition run :: "world \<Rightarrow> (string \<rightharpoonup> pyval) \<Rightarrow> (error + unit) \<times> st" where
  "run W e = main W \<lparr>env = e, trace = []\<rparr>"

section \<open>Observing an invocation\<close>

text \<open>The records handed to \<^verbatim>\<open>write_json_file\<close>, in order, and the value a
  record holds under a key.\<close>

fun is_write_json :: "event \<Rightarrow> bool" where
  "is_write_json (WriteJson d) = True"
| "is_write_json ev = False"

fun written :: "event list \<Rightarrow> pyval list" where
  "written [] = []"
| "written (WriteJson d # evs) = d # written evs"
| "written (ev # evs) = written evs"

fun record_field :: "pyval \<Rightarrow> string \<Rightarrow> pyval option" where
  "record_field (PDict kvs) k = map_of kvs k"
| "record_field v k = None"

text \<open>Shorthands for the calls \<^verbatim>\<open>main\<close> makes with the attributes of \<^verbatim>\<open>self\<close>:
  the record built, \<open>build_request\<close> and \<open>upload_script\<close>.\<close>

abbreviation built_record :: "self \<Rightarrow> pyval \<Rightarrow> pyval \<Rightarrow> string \<Rightarrow> pyval" where
  "built_record slf prio cid contents \<equiv>
     script_record (self_script_name slf) (self_script_info slf) (self_script_notes slf) prio cid
       (self_script_category slf) (self_script_parameter4 slf) (self_script_parameter5 slf)
       (self_script_parameter6 slf) (self_script_parameter7 slf) (self_script_parameter8 slf)
       (self_script_parameter9 slf) (self_script_parameter10 slf) (self_script_parameter11 slf)
       (self_osrequirements slf) contents"

abbreviation build_for :: "world \<Rightarrow> self \<Rightarrow> pyval \<Rightarrow> pyval \<Rightarrow> (pyval \<times> string) act" where
  "build_for W slf cid oid \<equiv>
     build_request W (self_jamf_url slf) (self_script_name slf) (self_script_path slf) cid
       (self_script_category slf) (self_script_info slf) (self_script_notes slf)
       (self_script_priority slf) (self_script_parameter4 slf) (self_script_parameter5 slf)
       (self_script_parameter6 slf) (self_script_parameter7 slf) (self_script_parameter8 slf)
       (self_script_parameter9 slf) (self_script_parameter10 slf) (self_script_parameter11 slf)
       (self_osrequirements slf) oid"

abbreviation upload_for :: "world \<Rightarrow> self \<Rightarrow> pyval \<Rightarrow> pyval \<Rightarrow> pyval \<Rightarrow> response act" where
  "upload_for W slf tok cid oid \<equiv>
     upload_script W (self_sleep slf) (self_jamf_url slf) (self_script_name slf)
       (self_script_path slf) cid (self_script_category slf) (self_script_info slf)
       (self_script_notes slf) (self_script_priority slf) (self_script_parameter4 slf)
       (self_script_parameter5 slf) (self_script_parameter6 slf) (self_script_parameter7 slf)
       (self_script_parameter8 slf) (self_script_parameter9 slf) (self_script_parameter10 slf)
       (self_script_parameter11 slf) (self_osrequirements slf) tok oid"

text \<open>
  The values for which the replace flag is off: the values Python reads as false
  (\<^verbatim>\<open>False\<close>, \<^verbatim>\<open>None\<close>, the numbers 0 and 0.0, the empty string, list and
  dictionary) and the string \<^verbatim>\<open>"False"\<close>, spelt exactly so.
\<close>

definition false_like :: "pyval \<Rightarrow> bool" where
  "false_like v =
     (v \<in> set [PBool False, PNone, PInt 0, PFloat 0, PStr [], PList [], PDict [], PStr ''False''])"

subsection \<open>Proof devices\<close>

text \<open>
  An action \<open>emits P\<close> when, from any state, it leaves the environment alone and
  only appends events that satisfy \<open>P\<close>. An event is \<open>quiet\<close> when it is neither
  an HTTP write, nor a pause, nor a JSON file written.
\<close>

definition emits :: "(event \<Rightarrow> bool) \<Rightarrow> 'a act \<Rightarrow> bool" where
  "emits P m = (\<forall>s. \<exists>evs. snd (m s) = s\<lparr>trace := trace s @ evs\<rparr> \<and> list_all P evs)"

definition quiet :: "event \<Rightarrow> bool" where
  "quiet ev = (\<not> is_curl ev \<and> \<not> is_sleep ev \<and> \<not> is_write_json ev)"

subsection \<open>Example worlds\<close>

text \<open>
  A world in which authentication succeeds, look-ups answer with \<open>ids\<close>, the file
  system is given by \<open>present\<close> and \<open>contents\<close>, the server answers attempt \<open>n\<close>
  with status \<open>codes n\<close>, and \<^verbatim>\<open>status_check\<close> accepts 200 and 201. Its text
  formatting returns the template unfilled, and a pause longer than
  9223372036 seconds is refused.
\<close>

definition test_world ::
  "(string \<Rightarrow> pyval \<Rightarrow> pyval) \<Rightarrow> (pyval \<Rightarrow> bool) \<Rightarrow> (pyval \<Rightarrow> string) \<Rightarrow> (nat \<Rightarrow> int) \<Rightarrow> world" where
  "test_world ids present contents codes = \<lparr>
     handle_uapi_auth = (\<lambda>url user pw. Inr (PStr ''token'')),
     get_uapi_obj_id_from_name = (\<lambda>url obj_type obj_name token. Inr (ids obj_type obj_name)),
     get_path_to_file = (\<lambda>p. Inr PNone),
     substitute_assignable_keys = (\<lambda>text. Inr text),
     write_json_file = (\<lambda>d. Inr (PStr ''/tmp/jamf_upload.json'')),
     api_endpoints = (\<lambda>obj_type. Inr (PStr ''api/v1/scripts'')),
     curl = (\<lambda>n request url token d. Inr (Response (PInt (codes n)) PNone)),
     status_check = (\<lambda>r endpoint_type obj_name request.
        Inr (if status_code r = PInt 200 \<or> status_code r = PInt 201 then PStr ''break'' else PNone)),
     path_exists = (\<lambda>p. Inr (present p)),
     read_text = (\<lambda>p. Inr (contents p)),
     time_sleep = (\<lambda>n. if n \<le> 9223372036 then Inr () else Inl OverflowError),
     py_format = (\<lambda>template args. template),
     int_of_other_text = (\<lambda>text. Inl ValueError),
     upper_of_other_text = (\<lambda>text. text) \<rparr>"

text \<open>An environment with a path, a category, a lower-case priority, a summary
  left by an earlier run, and the given replace flag.\<close>

definition test_env :: "pyval \<Rightarrow> string \<rightharpoonup> pyval" where
  "test_env replace_script = [
     ''JSS_URL'' \<mapsto> PStr ''https://jss.example.com'',
     ''API_USERNAME'' \<mapsto> PStr ''api'',
     ''API_PASSWORD'' \<mapsto> PStr ''secret'',
     ''script_path'' \<mapsto> PStr ''/recipes/hello.sh'',
     ''script_category'' \<mapsto> PStr ''Tools'',
     ''script_priority'' \<mapsto> PStr ''after'',
     ''replace_script'' \<mapsto> replace_script,
     ''sleep'' \<mapsto> PStr ''0'',
     ''jamfscriptuploader_summary_result'' \<mapsto> PDict []]"

text \<open>A script with id 17 exists and every write succeeds; no script exists and
  every write fails with 503; the file is missing; the file is empty.\<close>

definition existing_17 :: world where
  "existing_17 = test_world (\<lambda>obj_type obj_name. if obj_type = ''script'' then PStr ''17'' else PNone)
     (\<lambda>p. True) (\<lambda>p. ''echo hello'') (\<lambda>n. 200)"

definition never_ok :: world where
  "never_ok = test_world (\<lambda>obj_type obj_name. PNone) (\<lambda>p. True) (\<lambda>p. ''echo hello'') (\<lambda>n. 503)"

definition missing_file :: world where
  "missing_file = test_world (\<lambda>obj_type obj_name. PNone) (\<lambda>p. False) (\<lambda>p. []) (\<lambda>n. 201)"

definition empty_file :: world where
  "empty_file = test_world (\<lambda>obj_type obj_name. PNone) (\<lambda>p. True) (\<lambda>p. []) (\<lambda>n. 201)"

section \<open>Reasoning about invocations\<close>

lemma bnd_Inr_iff:
  "bnd m f s = (Inr y, s'') \<longleftrightarrow> (\<exists>x s'. m s = (Inr x, s') \<and> f x s' = (Inr y, s''))"
  by (auto simp: bnd_def split: prod.splits sum.splits)

lemma bnd_Inr: "m s = (Inr x, s') \<Longrightarrow> bnd m f s = f x s'"
  by (simp add: bnd_def)

lemma bnd_Inl: "m s = (Inl e, s') \<Longrightarrow> bnd m f s = (Inl e, s')"
  by (simp add: bnd_def)

lemma st_trace_append:
  "s\<lparr>trace := trace s @ a\<rparr>\<lparr>trace := trace (s\<lparr>trace := trace s @ a\<rparr>) @ b\<rparr>
     = s\<lparr>trace := trace s @ a @ b\<rparr>"
  by simp

lemma retry_sleep_result:
  "py_int W slp = Inr n \<Longrightarrow>
   retry_sleep W slp s = (time_sleep W (max n 30), s\<lparr>trace := trace s @ [Sleep (max n 30)]\<rparr>)"
  by (cases "30 < n"; cases "time_sleep W (max n 30)")
    (simp_all add: retry_sleep_def call_sleep_def bnd_def lift_def emit_def max_def)

lemma retry_sleep_Inr:
  "py_int W slp = Inr n \<Longrightarrow> time_sleep W (max n 30) = Inr () \<Longrightarrow>
   retry_sleep W slp s = (Inr (), s\<lparr>trace := trace s @ [Sleep (max n 30)]\<rparr>)"
  by (simp add: retry_sleep_result)

lemma upload_attempt_retry:
  assumes "curl W count (request_method obj_id) url token script_json = Inr r"
    and "status_check W r ''Script'' script_name (request_method obj_id) = Inr v"
    and "v \<noteq> PStr ''break''"
    and "py_int W slp = Inr n"
    and "time_sleep W (max n 30) = Inr ()"
    and "count \<le> 5"
  shows "upload_attempt W slp script_name obj_id url token script_json count s =
    (Inr Continue, s\<lparr>trace := trace s @
       [Output (PStr (py_format W ''Script upload attempt {}'' [PInt (int count)])) 2,
        Curl count (request_method obj_id) url token script_json,
        Sleep (max n 30)]\<rparr>)"
  using assms
  by (simp add: upload_attempt_def bnd_def say_def emit_def call_curl_def lift_def ret_def
      retry_sleep_Inr Let_def)

lemma upload_attempt_exhausted:
  assumes "curl W count (request_method obj_id) url token script_json = Inr r"
    and "status_check W r ''Script'' script_name (request_method obj_id) = Inr v"
    and "v \<noteq> PStr ''break''"
    and "count > 5"
  shows "upload_attempt W slp script_name obj_id url token script_json count s =
    (Inl (ProcessorError ''ERROR: Script upload failed ''), s\<lparr>trace := trace s @
       [Output (PStr (py_format W ''Script upload attempt {}'' [PInt (int count)])) 2,
        Curl count (request_method obj_id) url token script_json,
        Output (PStr ''Script upload did not succeed after 5 attempts'') 1,
        Output (PStr (py_format W (CHR 0x0A # ''HTTP POST Response Code: {}'')
                        [status_code r])) 1]\<rparr>)"
  using assms
  by (simp add: upload_attempt_def bnd_def say_def emit_def call_curl_def lift_def ret_def
      raise_def Let_def)

lemma upload_loop_retry_from:
  assumes retry: "\<And>k. \<exists>r v. curl W k (request_method obj_id) url token script_json = Inr r
            \<and> status_check W r ''Script'' script_name (request_method obj_id) = Inr v
            \<and> v \<noteq> PStr ''break''"
    and slp: "py_int W slp = Inr n"
    and slept: "time_sleep W (max n 30) = Inr ()"
  shows "c \<le> 5 \<Longrightarrow> \<exists>evs.
     upload_loop W slp script_name obj_id url token script_json c s =
       (Inl (ProcessorError ''ERROR: Script upload failed ''), s\<lparr>trace := trace s @ evs\<rparr>)
     \<and> filter is_curl evs =
         map (\<lambda>k. Curl k (request_method obj_id) url token script_json) [Suc c..<7]
     \<and> filter is_sleep evs = replicate (5 - c) (Sleep (max n 30))"
proof (induction "5 - c" arbitrary: c s)
  case 0
  then have c: "c = 5" by simp
  obtain r v where rv: "curl W 6 (request_method obj_id) url token script_json = Inr r"
    "status_check W r ''Script'' script_name (request_method obj_id) = Inr v"
    "v \<noteq> PStr ''break''"
    using retry[of 6] by blast
  have ex: "upload_attempt W slp script_name obj_id url token script_json (5 + 1) s =
    (Inl (ProcessorError ''ERROR: Script upload failed ''), s\<lparr>trace := trace s @
       [Output (PStr (py_format W ''Script upload attempt {}'' [PInt (int 6)])) 2,
        Curl 6 (request_method obj_id) url token script_json,
        Output (PStr ''Script upload did not succeed after 5 attempts'') 1,
        Output (PStr (py_format W (CHR 0x0A # ''HTTP POST Response Code: {}'')
                        [status_code r])) 1]\<rparr>)"
    using upload_attempt_exhausted[OF rv, of slp s] by simp
  show ?case
    unfolding c
    apply (subst upload_loop.simps)
    apply (simp only: ex prod.case sum.case)
    apply (rule exI[of _ "[Output (PStr (py_format W ''Script upload attempt {}'' [PInt (int 6)])) 2,
        Curl 6 (request_method obj_id) url token script_json,
        Output (PStr ''Script upload did not succeed after 5 attempts'') 1,
        Output (PStr (py_format W (CHR 0x0A # ''HTTP POST Response Code: {}'')
                        [status_code r])) 1]"])
    apply simp
    done
next
  case (Suc m)
  then have c: "c < 5" by simp
  obtain r v where rv: "curl W (c + 1) (request_method obj_id) url token script_json = Inr r"
    "status_check W r ''Script'' script_name (request_method obj_id) = Inr v"
    "v \<noteq> PStr ''break''"
    using retry[of "c + 1"] by blast
  let ?s1 = "s\<lparr>trace := trace s @
       [Output (PStr (py_format W ''Script upload attempt {}'' [PInt (int (c + 1))])) 2,
        Curl (c + 1) (request_method obj_id) url token script_json,
        Sleep (max n 30)]\<rparr>"
  have step: "upload_attempt W slp script_name obj_id url token script_json (c + 1) s = (Inr Continue, ?s1)"
    using upload_attempt_retry[OF rv slp slept, of s] c by simp
  have "m = 5 - (c + 1)" "c + 1 \<le> 5" using Suc.hyps(2) c by simp_all
  from Suc.hyps(1)[OF this, of ?s1] obtain evs where evs:
    "upload_loop W slp script_name obj_id url token script_json (c + 1) ?s1 =
       (Inl (ProcessorError ''ERROR: Script upload failed ''), ?s1\<lparr>trace := trace ?s1 @ evs\<rparr>)"
    "filter is_curl evs =
         map (\<lambda>k. Curl k (request_method obj_id) url token script_json) [Suc (c + 1)..<7]"
    "filter is_sleep evs = replicate (5 - (c + 1)) (Sleep (max n 30))"
    by blast
  have upt: "[Suc c..<7] = Suc c # [Suc (c + 1)..<7]"
    using c by (simp add: upt_conv_Cons)
  have rep: "replicate (5 - c) (Sleep (max n 30)) = Sleep (max n 30) # replicate (5 - (c + 1)) (Sleep (max n 30))"
    using c by (cases "5 - c") simp_all
  show ?case
    apply (subst upload_loop.simps)
    apply (simp only: step prod.case sum.case ctl.case evs(1))
    apply (rule exI[of _ "[Output (PStr (py_format W ''Script upload attempt {}'' [PInt (int (c + 1))])) 2,
        Curl (c + 1) (request_method obj_id) url token script_json,
        Sleep (max n 30)] @ evs"])
    using evs(2,3) upt rep by simp
qed

lemma emitsD:
  assumes "emits P m"
  obtains evs where "snd (m s) = s\<lparr>trace := trace s @ evs\<rparr>" "list_all P evs"
  using assms unfolding emits_def by blast

lemma emits_ret: "emits P (ret x)"
  unfolding emits_def ret_def by (intro allI exI[of _ "[]"]) simp

lemma emits_raise: "emits P (raise e)"
  unfolding emits_def raise_def by (intro allI exI[of _ "[]"]) simp

lemma emits_lift: "emits P (lift r)"
  unfolding emits_def lift_def by (intro allI exI[of _ "[]"]) simp

lemma emits_emit: "P ev \<Longrightarrow> emits P (emit ev)"
  unfolding emits_def emit_def by (intro allI exI[of _ "[ev]"]) simp

lemma emits_say: "P (Output msg lvl) \<Longrightarrow> emits P (say msg lvl)"
  unfolding say_def by (rule emits_emit)

lemma emits_bnd:
  assumes m: "emits P m"
    and f: "\<And>x s s'. m s = (Inr x, s') \<Longrightarrow> emits P (f x)"
  shows "emits P (bnd m f)"
  unfolding emits_def
proof
  fix s
  obtain evs where evs: "snd (m s) = s\<lparr>trace := trace s @ evs\<rparr>" "list_all P evs"
    using m by (rule emitsD)
  show "\<exists>evs. snd (bnd m f s) = s\<lparr>trace := trace s @ evs\<rparr> \<and> list_all P evs"
  proof (cases "m s")
    case (Pair r s')
    with evs have s': "s' = s\<lparr>trace := trace s @ evs\<rparr>" by simp
    show ?thesis
    proof (cases r)
      case (Inl e)
      with Pair have "bnd m f s = (Inl e, s')" by (simp add: bnd_def)
      with s' evs(2) show ?thesis by auto
    next
      case (Inr x)
      with Pair have ms: "m s = (Inr x, s')" by simp
      then have b: "bnd m f s = f x s'" by (rule bnd_Inr)
      obtain evs' where evs': "snd (f x s') = s'\<lparr>trace := trace s' @ evs'\<rparr>" "list_all P evs'"
        using f[OF ms] by (rule emitsD)
      have "snd (bnd m f s) = s\<lparr>trace := trace s @ (evs @ evs')\<rparr>"
        using b evs' s' by simp
      moreover have "list_all P (evs @ evs')" using evs(2) evs'(2) by simp
      ultimately show ?thesis by blast
    qed
  qed
qed

lemma emits_if: "(c \<Longrightarrow> emits P a) \<Longrightarrow> (\<not> c \<Longrightarrow> emits P b) \<Longrightarrow> emits P (if c then a else b)"
  by simp

lemma emits_case_prod: "(\<And>a b. x = (a, b) \<Longrightarrow> emits P (f a b)) \<Longrightarrow> emits P (case x of (a, b) \<Rightarrow> f a b)"
  by (cases x) simp

lemma emits_call_auth: "P (Auth url user pw) \<Longrightarrow> emits P (call_auth W url user pw)"
  unfolding call_auth_def by (intro emits_bnd emits_emit emits_lift)

lemma emits_call_lookup:
  "P (Lookup url t n tok) \<Longrightarrow> emits P (call_lookup W url t n tok)"
  unfolding call_lookup_def by (intro emits_bnd emits_emit emits_lift)

lemma emits_call_write_json: "P (WriteJson d) \<Longrightarrow> emits P (call_write_json W d)"
  unfolding call_write_json_def by (intro emits_bnd emits_emit emits_lift)

lemma emits_call_curl: "P (Curl n rq u t d) \<Longrightarrow> emits P (call_curl W n rq u t d)"
  unfolding call_curl_def by (intro emits_bnd emits_emit emits_lift)

lemma emits_call_sleep: "P (Sleep n) \<Longrightarrow> emits P (call_sleep W n)"
  unfolding call_sleep_def by (intro emits_bnd emits_emit emits_lift)

lemma emits_retry_sleep: "(\<And>n. P (Sleep n)) \<Longrightarrow> emits P (retry_sleep W slp)"
  unfolding retry_sleep_def by (intro emits_bnd emits_call_sleep emits_lift emits_if)

lemma emits_resolve_category:
  assumes "\<And>m l. P (Output m l)" and "\<And>u t n k. P (Lookup u t n k)"
  shows "emits P (resolve_category W url cat tok)"
  unfolding resolve_category_def
  by (intro emits_bnd emits_say emits_call_lookup emits_if emits_ret assms)

lemma emits_resolve_path: "emits P (resolve_path W p)"
  unfolding resolve_path_def
  by (intro emits_bnd emits_lift emits_if emits_ret emits_raise)

lemma emits_resolve_name: "emits P (resolve_name n p)"
  unfolding resolve_name_def
  by (intro emits_lift emits_if emits_ret)


lemma emits_resolve:
  assumes "\<And>m l. P (Output m l)" and "\<And>u t n k. P (Lookup u t n k)" and "\<And>a b c. P (Auth a b c)"
  shows "emits P (resolve W slf)"
  unfolding resolve_def Let_def
  by (intro emits_bnd emits_case_prod emits_call_auth emits_resolve_category emits_resolve_path
      emits_resolve_name emits_say emits_call_lookup emits_ret assms)

lemma emits_upload_attempt:
  assumes "\<And>m l. P (Output m l)" and "\<And>n. P (Sleep n)" and "\<And>k rq u t d. P (Curl k rq u t d)"
  shows "emits P (upload_attempt W slp name oid url tok json k)"
  unfolding upload_attempt_def Let_def
  by (intro emits_bnd emits_say emits_call_curl emits_lift emits_if emits_ret emits_raise
      emits_retry_sleep assms)

lemma emits_upload_loop_aux:
  assumes "\<And>m l. P (Output m l)" and "\<And>n. P (Sleep n)" and "\<And>k rq u t d. P (Curl k rq u t d)"
  shows "\<exists>evs. snd (upload_loop W slp name oid url tok json c s) = s\<lparr>trace := trace s @ evs\<rparr>
           \<and> list_all P evs"
proof (induction W slp name oid url tok json c s rule: upload_loop.induct)
  case (1 W slp name oid url tok json c s)
  obtain evs where evs:
    "snd (upload_attempt W slp name oid url tok json (c + 1) s) = s\<lparr>trace := trace s @ evs\<rparr>"
    "list_all P evs"
    using emits_upload_attempt[of P, OF assms] by (rule emitsD)
  show ?case
  proof (cases "upload_attempt W slp name oid url tok json (c + 1) s")
    case (Pair r s')
    with evs have s': "s' = s\<lparr>trace := trace s @ evs\<rparr>" by simp
    show ?thesis
    proof (cases r)
      case (Inl e)
      with Pair s' evs(2) show ?thesis
        by (subst upload_loop.simps) auto
    next
      case (Inr x)
      show ?thesis
      proof (cases x)
        case (Break r')
        with Inr Pair s' evs(2) show ?thesis
          by (subst upload_loop.simps) auto
      next
        case Continue
        from "1.IH"[OF Pair[symmetric] Inr Continue] obtain evs' where evs':
          "snd (upload_loop W slp name oid url tok json (c + 1) s') = s'\<lparr>trace := trace s' @ evs'\<rparr>"
          "list_all P evs'" by blast
        have "snd (upload_loop W slp name oid url tok json c s) = s\<lparr>trace := trace s @ (evs @ evs')\<rparr>"
          using Pair Inr Continue evs' s' by (subst upload_loop.simps) simp
        moreover have "list_all P (evs @ evs')" using evs(2) evs'(2) by simp
        ultimately show ?thesis by blast
      qed
    qed
  qed
qed

lemma emits_upload_loop:
  assumes "\<And>m l. P (Output m l)" and "\<And>n. P (Sleep n)" and "\<And>k rq u t d. P (Curl k rq u t d)"
  shows "emits P (upload_loop W slp name oid url tok json c)"
  unfolding emits_def using emits_upload_loop_aux[of P, OF assms] by blast


lemma upload_attempt_curl:
  "filter is_curl (trace (snd (upload_attempt W slp name oid url tok json k s))) =
     filter is_curl (trace s) @ [Curl k (request_method oid) url tok json]"
  by (auto simp: upload_attempt_def bnd_def say_def emit_def call_curl_def lift_def ret_def
      raise_def retry_sleep_def call_sleep_def Let_def split: sum.splits prod.splits)

lemma upload_loop_curls:
  "\<exists>m\<ge>1. (c \<le> 5 \<longrightarrow> c + m \<le> 6) \<and>
     filter is_curl (trace (snd (upload_loop W slp name oid url tok json c s))) =
       filter is_curl (trace s) @
       map (\<lambda>k. Curl k (request_method oid) url tok json) [Suc c..<Suc (c + m)]"
proof (induction W slp name oid url tok json c s rule: upload_loop.induct)
  case (1 W slp name oid url tok json c s)
  have one: "filter is_curl (trace (snd (upload_attempt W slp name oid url tok json (c + 1) s))) =
     filter is_curl (trace s) @ [Curl (c + 1) (request_method oid) url tok json]"
    by (rule upload_attempt_curl)
  show ?case
  proof (cases "upload_attempt W slp name oid url tok json (c + 1) s")
    case (Pair r s')
    with one have s': "filter is_curl (trace s') =
        filter is_curl (trace s) @ [Curl (c + 1) (request_method oid) url tok json]" by simp
    have stop: "snd (upload_loop W slp name oid url tok json c s) = s' \<Longrightarrow> ?thesis"
      using s' by (intro exI[of _ 1]) simp
    show ?thesis
    proof (cases r)
      case (Inl e)
      with Pair show ?thesis by (intro stop) (subst upload_loop.simps, simp)
    next
      case (Inr x)
      show ?thesis
      proof (cases x)
        case (Break r')
        with Inr Pair show ?thesis by (intro stop) (subst upload_loop.simps, simp)
      next
        case Continue
        have c5: "c + 1 \<le> 5"
          using Pair Inr Continue upload_attempt_Continue by blast
        from "1.IH"[OF Pair[symmetric] Inr Continue] obtain m where m: "m \<ge> 1"
          "c + 1 \<le> 5 \<longrightarrow> c + 1 + m \<le> 6"
          "filter is_curl (trace (snd (upload_loop W slp name oid url tok json (c + 1) s'))) =
             filter is_curl (trace s') @
             map (\<lambda>k. Curl k (request_method oid) url tok json) [Suc (c + 1)..<Suc (c + 1 + m)]"
          by blast
        have eq: "upload_loop W slp name oid url tok json c s =
                  upload_loop W slp name oid url tok json (c + 1) s'"
          using Pair Inr Continue by (subst upload_loop.simps) simp
        have upt: "[Suc c..<Suc (c + (m + 1))] = Suc c # [Suc (c + 1)..<Suc (c + 1 + m)]"
          by (simp add: upt_conv_Cons)
        show ?thesis
          apply (rule exI[of _ "m + 1"])
          using m c5 s' unfolding eq upt by simp
      qed
    qed
  qed
qed

lemma build_request_Inr:
  assumes "build_request W jamf_url script_name script_path category_id script_category
     script_info script_notes script_priority p4 p5 p6 p7 p8 p9 p10 p11 osreq obj_id s
     = (Inr (json, url), s')"
  shows "\<exists>raw contents prio ep.
     py_exists W script_path = Inr True \<and> py_open_read W script_path = Inr raw \<and>
     substitute_assignable_keys W raw = Inr contents \<and>
     (if truthy script_priority then py_upper W script_priority = Inr prio else prio = script_priority) \<and>
     write_json_file W (script_record script_name script_info script_notes prio category_id
        script_category p4 p5 p6 p7 p8 p9 p10 p11 osreq contents) = Inr json \<and>
     api_endpoints W ''script'' = Inr ep \<and>
     url = object_url W jamf_url ep obj_id \<and>
     s' = s\<lparr>trace := trace s @
        [Output (PStr ''Script data:'') 2,
         Output (script_record script_name script_info script_notes prio category_id
           script_category p4 p5 p6 p7 p8 p9 p10 p11 osreq contents) 2,
         WriteJson (script_record script_name script_info script_notes prio category_id
           script_category p4 p5 p6 p7 p8 p9 p10 p11 osreq contents),
         Output (PStr ''Uploading script..'') 1]\<rparr>"
  using assms
  by (auto simp: build_request_def bnd_Inr_iff lift_def say_def emit_def call_write_json_def
      ret_def raise_def Let_def split: if_splits)

lemma emits_build_request:
  assumes out: "\<And>m l. P (Output m l)"
    and rec: "\<And>prio contents.
       (if truthy script_priority then py_upper W script_priority = Inr prio else prio = script_priority)
       \<Longrightarrow> P (WriteJson (script_record script_name script_info script_notes prio category_id
              script_category p4 p5 p6 p7 p8 p9 p10 p11 osreq contents))"
  shows "emits P (build_request W jamf_url script_name script_path category_id script_category
     script_info script_notes script_priority p4 p5 p6 p7 p8 p9 p10 p11 osreq obj_id)"
  unfolding build_request_def Let_def
proof (intro emits_bnd emits_lift emits_if emits_raise emits_ret emits_say out
    emits_call_write_json, goal_cases)
  case (1 found s1 s1' raw s2 s2' contents s3 s3' prio s4 s4')
  from 1(4) have "if truthy script_priority then py_upper W script_priority = Inr prio
                  else prio = script_priority"
    by (auto simp: lift_def ret_def split: if_splits)
  then show ?case by (rule rec)
qed

lemma build_request_missing:
  "py_exists W script_path = Inr False \<Longrightarrow>
   build_request W jamf_url script_name script_path category_id script_category
     script_info script_notes script_priority p4 p5 p6 p7 p8 p9 p10 p11 osreq obj_id s
   = (Inl (ProcessorError ''Script does not exist!''), s)"
  by (simp add: build_request_def bnd_def lift_def raise_def)

lemma clear_summary_eq: "clear_summary s = (Inr (), s\<lparr>env := (env s)(SUMMARY := None)\<rparr>)"
  by (cases "env s SUMMARY") (simp_all add: clear_summary_def env_del_def ret_def fun_upd_idem)

lemma prepare_eq:
  "prepare W s = resolve W (read_inputs (env s)) (s\<lparr>env := (env s)(SUMMARY := None)\<rparr>)"
  by (simp add: prepare_def bnd_def get_inputs_def clear_summary_eq)

lemma bnd_call_auth_first:
  assumes "\<And>tok. emits P (f tok)"
  shows "\<exists>evs. snd (bnd (call_auth W a b c) f s) = s\<lparr>trace := trace s @ Auth a b c # evs\<rparr>
           \<and> list_all P evs"
proof (cases "handle_uapi_auth W a b c")
  case (Inl e)
  then have "bnd (call_auth W a b c) f s = (Inl e, s\<lparr>trace := trace s @ [Auth a b c]\<rparr>)"
    by (simp add: bnd_def call_auth_def emit_def lift_def)
  then show ?thesis by (intro exI[of _ "[]"]) simp
next
  case (Inr tok)
  let ?s1 = "s\<lparr>trace := trace s @ [Auth a b c]\<rparr>"
  from Inr have b: "bnd (call_auth W a b c) f s = f tok ?s1"
    by (simp add: bnd_def call_auth_def emit_def lift_def)
  obtain evs where evs: "snd (f tok ?s1) = ?s1\<lparr>trace := trace ?s1 @ evs\<rparr>" "list_all P evs"
    using assms[of tok] by (rule emitsD)
  show ?thesis
    using b evs by (intro exI[of _ evs]) simp
qed

lemma resolve_state:
  assumes "\<And>m l. P (Output m l)" and "\<And>u t n k. P (Lookup u t n k)"
  shows "\<exists>evs. snd (resolve W slf s) =
           s\<lparr>trace := trace s @ Auth (self_jamf_url slf) (self_jamf_user slf) (self_jamf_password slf) # evs\<rparr>
           \<and> list_all P evs"
  unfolding resolve_def Let_def
  by (intro bnd_call_auth_first emits_bnd emits_case_prod emits_resolve_category emits_resolve_path
      emits_resolve_name emits_say emits_call_lookup emits_ret assms)

lemma resolve_category_Inr:
  assumes "resolve_category W url cat tok s = (Inr (cat', cid), s')"
  shows "(\<not> truthy cat \<and> cat' = PStr [] \<and> cid = PStr ''-1'') \<or>
         (truthy cat \<and> cat' = cat \<and>
          (\<exists>v. get_uapi_obj_id_from_name W url ''category'' cat tok = Inr v \<and>
               cid = (if truthy v then v else PStr ''-1'')))"
  using assms
  by (auto simp: resolve_category_def bnd_Inr_iff call_lookup_def say_def emit_def lift_def
      ret_def split: if_splits)

lemma resolve_path_Inr:
  assumes "resolve_path W p s = (Inr p', s')"
  shows "(py_contains_slash p = Inr True \<and> p' = p) \<or>
         (py_contains_slash p = Inr False \<and> get_path_to_file W p = Inr p' \<and> truthy p')"
proof (cases "py_contains_slash p")
  case (Inl e)
  with assms show ?thesis
    by (simp add: resolve_path_def bnd_def lift_def)
next
  case (Inr b)
  show ?thesis
  proof (cases b)
    case True
    with Inr assms show ?thesis
      by (simp add: resolve_path_def bnd_def lift_def ret_def)
  next
    case False
    show ?thesis
    proof (cases "get_path_to_file W p")
      case (Inl e)
      with Inr False assms show ?thesis
        by (simp add: resolve_path_def bnd_def lift_def)
    next
      case (Inr v)
      with \<open>py_contains_slash p = Inr b\<close> False assms show ?thesis
        by (cases "truthy v") (simp_all add: resolve_path_def bnd_def lift_def ret_def raise_def)
    qed
  qed
qed

lemma resolve_name_Inr:
  assumes "resolve_name n p s = (Inr n', s')"
  shows "if truthy n then n' = n else py_basename p = Inr n'"
  using assms
  by (auto simp: resolve_name_def lift_def ret_def split: if_splits)

lemma resolve_Inr:
  assumes "resolve W slf s = (Inr (slf', tok, cid, oid), s')"
  shows "handle_uapi_auth W (self_jamf_url slf) (self_jamf_user slf) (self_jamf_password slf) = Inr tok"
    and "\<exists>sa sb. resolve_category W (self_jamf_url slf) (self_script_category slf) tok sa
            = (Inr (self_script_category slf', cid), sb)"
    and "\<exists>sa sb. resolve_path W (self_script_path slf) sa = (Inr (self_script_path slf'), sb)"
    and "\<exists>sa sb. resolve_name (self_script_name slf) (self_script_path slf') sa
            = (Inr (self_script_name slf'), sb)"
    and "get_uapi_obj_id_from_name W (self_jamf_url slf) ''script'' (self_script_name slf') tok = Inr oid"
    and "slf' = slf\<lparr>self_script_category := self_script_category slf',
                     self_script_path := self_script_path slf',
                     self_script_name := self_script_name slf'\<rparr>"
proof -
  from assms obtain a sa sa' xa sb sb' xb sc sc' where
    "handle_uapi_auth W (self_jamf_url slf) (self_jamf_user slf) (self_jamf_password slf) = Inr tok"
    "resolve_category W (self_jamf_url slf) (self_script_category slf) tok sa = (Inr (a, cid), sa')"
    "resolve_path W (self_script_path slf) sb = (Inr xa, sb')"
    "resolve_name (self_script_name slf) xa sc = (Inr xb, sc')"
    "get_uapi_obj_id_from_name W (self_jamf_url slf) ''script'' xb tok = Inr oid"
    "slf' = slf\<lparr>self_script_category := a, self_script_path := xa, self_script_name := xb\<rparr>"
    by (clarsimp simp: resolve_def bnd_Inr_iff Let_def call_auth_def call_lookup_def say_def
        emit_def lift_def ret_def)
  then show
    "handle_uapi_auth W (self_jamf_url slf) (self_jamf_user slf) (self_jamf_password slf) = Inr tok"
    "\<exists>sa sb. resolve_category W (self_jamf_url slf) (self_script_category slf) tok sa
            = (Inr (self_script_category slf', cid), sb)"
    "\<exists>sa sb. resolve_path W (self_script_path slf) sa = (Inr (self_script_path slf'), sb)"
    "\<exists>sa sb. resolve_name (self_script_name slf) (self_script_path slf') sa
            = (Inr (self_script_name slf'), sb)"
    "get_uapi_obj_id_from_name W (self_jamf_url slf) ''script'' (self_script_name slf') tok = Inr oid"
    "slf' = slf\<lparr>self_script_category := self_script_category slf',
                     self_script_path := self_script_path slf',
                     self_script_name := self_script_name slf'\<rparr>"
    by (simp, simp, blast, simp, blast, simp, blast, simp, simp)
qed

lemma report_eq:
  "report W slf s = (Inr (), s\<lparr>env := (env s)(''script_name'' \<mapsto> self_script_name slf,
       ''script_uploaded'' \<mapsto> PBool True, SUMMARY \<mapsto> summary_result W slf)\<rparr>)"
  by (simp add: report_def bnd_def env_set_def Let_def)

lemma emits_upload_script:
  assumes out: "\<And>m l. P (Output m l)" and "\<And>n. P (Sleep n)" and "\<And>k rq u t d. P (Curl k rq u t d)"
    and rec: "\<And>prio contents.
       (if truthy script_priority then py_upper W script_priority = Inr prio else prio = script_priority)
       \<Longrightarrow> P (WriteJson (script_record script_name script_info script_notes prio category_id
              script_category p4 p5 p6 p7 p8 p9 p10 p11 osreq contents))"
  shows "emits P (upload_script W slp jamf_url script_name script_path category_id script_category
     script_info script_notes script_priority p4 p5 p6 p7 p8 p9 p10 p11 osreq token obj_id)"
  unfolding upload_script_def
  by (intro emits_bnd emits_case_prod emits_build_request emits_upload_loop assms)

lemma main_prepare_Inl:
  "prepare W s0 = (Inl e, s1) \<Longrightarrow> main W s0 = (Inl e, s1)"
  by (simp add: main_def bnd_def)

lemma main_skip:
  assumes "prepare W s0 = (Inr (slf, tok, cid, oid), s1)" and "truthy oid"
    and "\<not> truthy (self_replace slf)"
  shows "main W s0 = (Inr (), s1\<lparr>trace := trace s1 @
     [Output (PStr (py_format W ''Script '{}' already exists: ID {}'' [self_script_name slf, oid])) 1,
      Output (PStr ''Not replacing existing script. Use replace_script='True' to enforce.'') 1]\<rparr>)"
  using assms by (simp add: main_def bnd_def say_def emit_def)

lemma main_replace:
  assumes "prepare W s0 = (Inr (slf, tok, cid, oid), s1)" and "truthy oid"
    and "truthy (self_replace slf)"
  shows "main W s0 = upload_and_report W slf tok cid oid (s1\<lparr>trace := trace s1 @
     [Output (PStr (py_format W ''Script '{}' already exists: ID {}'' [self_script_name slf, oid])) 1,
      Output (PStr (py_format W ''Replacing existing script as 'replace_script' is set to {}''
                [self_replace slf])) 1]\<rparr>)"
  using assms by (simp add: main_def bnd_def say_def emit_def)

lemma main_create:
  assumes "prepare W s0 = (Inr (slf, tok, cid, oid), s1)" and "\<not> truthy oid"
  shows "main W s0 = upload_and_report W slf tok cid oid s1"
  using assms by (simp add: main_def bnd_def)

lemma quiet_simps [simp]:
  "quiet (Output m l)" "quiet (Auth a b c)" "quiet (Lookup u t n k)"
  "\<not> quiet (Curl i rq url tok d)" "\<not> quiet (Sleep j)" "\<not> quiet (WriteJson d)"
  by (simp_all add: quiet_def)

lemma quiet_filters:
  "list_all quiet evs \<Longrightarrow>
     filter is_curl evs = [] \<and> filter is_sleep evs = [] \<and> filter is_write_json evs = []"
  by (induction evs) (auto simp: quiet_def)

lemma prepare_state:
  assumes "\<And>m l. P (Output m l)" and "\<And>u t n k. P (Lookup u t n k)"
  shows "\<exists>evs. snd (prepare W s) =
           s\<lparr>env := (env s)(SUMMARY := None),
             trace := trace s @ Auth (env_get (env s) ''JSS_URL'') (env_get (env s) ''API_USERNAME'')
                                  (env_get (env s) ''API_PASSWORD'') # evs\<rparr>
           \<and> list_all P evs"
proof -
  obtain evs where
    "snd (resolve W (read_inputs (env s)) (s\<lparr>env := (env s)(SUMMARY := None)\<rparr>)) =
       (s\<lparr>env := (env s)(SUMMARY := None)\<rparr>)\<lparr>trace := trace (s\<lparr>env := (env s)(SUMMARY := None)\<rparr>) @
          Auth (self_jamf_url (read_inputs (env s))) (self_jamf_user (read_inputs (env s)))
               (self_jamf_password (read_inputs (env s))) # evs\<rparr>"
    "list_all P evs"
    using resolve_state[of P W "read_inputs (env s)" "s\<lparr>env := (env s)(SUMMARY := None)\<rparr>", OF assms]
    by blast
  then show ?thesis
    by (intro exI[of _ evs]) (simp add: prepare_eq read_inputs_def)
qed

lemma prepare_Inr:
  assumes "prepare W s = (Inr (slf, tok, cid, oid), s1)"
  shows "handle_uapi_auth W (env_get (env s) ''JSS_URL'') (env_get (env s) ''API_USERNAME'')
           (env_get (env s) ''API_PASSWORD'') = Inr tok"
    and "\<exists>sa sb. resolve_category W (env_get (env s) ''JSS_URL'')
            (env_get (env s) ''script_category'') tok sa = (Inr (self_script_category slf, cid), sb)"
    and "\<exists>sa sb. resolve_path W (env_get (env s) ''script_path'') sa
            = (Inr (self_script_path slf), sb)"
    and "\<exists>sa sb. resolve_name (env_get (env s) ''script_name'') (self_script_path slf) sa
            = (Inr (self_script_name slf), sb)"
    and "get_uapi_obj_id_from_name W (env_get (env s) ''JSS_URL'') ''script'' (self_script_name slf) tok
            = Inr oid"
    and "self_jamf_url slf = env_get (env s) ''JSS_URL''"
    and "self_replace slf = handle_replace (env_get (env s) ''replace_script'')"
    and "self_script_priority slf = env_get (env s) ''script_priority''"
    and "self_sleep slf = env_get (env s) ''sleep''"
proof -
  from assms have r: "resolve W (read_inputs (env s)) (s\<lparr>env := (env s)(SUMMARY := None)\<rparr>)
      = (Inr (slf, tok, cid, oid), s1)"
    by (simp add: prepare_eq)
  note R = resolve_Inr[OF r]
  have sel: "self_jamf_url (read_inputs (env s)) = env_get (env s) ''JSS_URL''"
    "self_jamf_user (read_inputs (env s)) = env_get (env s) ''API_USERNAME''"
    "self_jamf_password (read_inputs (env s)) = env_get (env s) ''API_PASSWORD''"
    "self_script_category (read_inputs (env s)) = env_get (env s) ''script_category''"
    "self_script_path (read_inputs (env s)) = env_get (env s) ''script_path''"
    "self_script_name (read_inputs (env s)) = env_get (env s) ''script_name''"
    "self_replace (read_inputs (env s)) = handle_replace (env_get (env s) ''replace_script'')"
    "self_script_priority (read_inputs (env s)) = env_get (env s) ''script_priority''"
    "self_sleep (read_inputs (env s)) = env_get (env s) ''sleep''"
    by (simp_all add: read_inputs_def)
  show "handle_uapi_auth W (env_get (env s) ''JSS_URL'') (env_get (env s) ''API_USERNAME'')
           (env_get (env s) ''API_PASSWORD'') = Inr tok"
    using R(1) sel by simp
  show "\<exists>sa sb. resolve_category W (env_get (env s) ''JSS_URL'')
            (env_get (env s) ''script_category'') tok sa = (Inr (self_script_category slf, cid), sb)"
    using R(2) sel by simp
  show "\<exists>sa sb. resolve_path W (env_get (env s) ''script_path'') sa
            = (Inr (self_script_path slf), sb)"
    using R(3) sel by simp
  show "\<exists>sa sb. resolve_name (env_get (env s) ''script_name'') (self_script_path slf) sa
            = (Inr (self_script_name slf), sb)"
    using R(4) sel by simp
  show "get_uapi_obj_id_from_name W (env_get (env s) ''JSS_URL'') ''script'' (self_script_name slf) tok
            = Inr oid"
    using R(5) sel by simp
  have "self_jamf_url slf = self_jamf_url (read_inputs (env s))"
    "self_replace slf = self_replace (read_inputs (env s))"
    "self_script_priority slf = self_script_priority (read_inputs (env s))"
    "self_sleep slf = self_sleep (read_inputs (env s))"
    by (subst R(6), simp)+
  then show "self_jamf_url slf = env_get (env s) ''JSS_URL''"
    "self_replace slf = handle_replace (env_get (env s) ''replace_script'')"
    "self_script_priority slf = env_get (env s) ''script_priority''"
    "self_sleep slf = env_get (env s) ''sleep''"
    using sel by simp_all
qed

lemma upload_and_report_Inl:
  assumes "upload_script W (self_sleep slf) (self_jamf_url slf) (self_script_name slf)
            (self_script_path slf) cid (self_script_category slf)
            (self_script_info slf) (self_script_notes slf) (self_script_priority slf)
            (self_script_parameter4 slf) (self_script_parameter5 slf)
            (self_script_parameter6 slf) (self_script_parameter7 slf)
            (self_script_parameter8 slf) (self_script_parameter9 slf)
            (self_script_parameter10 slf) (self_script_parameter11 slf)
            (self_osrequirements slf) tok oid s = (Inl e, s')"
  shows "upload_and_report W slf tok cid oid s = (Inl e, s')"
  using assms by (simp add: upload_and_report_def bnd_def)

lemma upload_and_report_Inr:
  assumes "upload_script W (self_sleep slf) (self_jamf_url slf) (self_script_name slf)
            (self_script_path slf) cid (self_script_category slf)
            (self_script_info slf) (self_script_notes slf) (self_script_priority slf)
            (self_script_parameter4 slf) (self_script_parameter5 slf)
            (self_script_parameter6 slf) (self_script_parameter7 slf)
            (self_script_parameter8 slf) (self_script_parameter9 slf)
            (self_script_parameter10 slf) (self_script_parameter11 slf)
            (self_osrequirements slf) tok oid s = (Inr r, s')"
  shows "upload_and_report W slf tok cid oid s =
     (Inr (), s'\<lparr>env := (env s')(''script_name'' \<mapsto> self_script_name slf,
       ''script_uploaded'' \<mapsto> PBool True, SUMMARY \<mapsto> summary_result W slf)\<rparr>)"
  using assms by (simp add: upload_and_report_def bnd_def report_eq)

lemma upload_and_report_trace:
  "trace (snd (upload_and_report W slf tok cid oid s)) =
   trace (snd (upload_script W (self_sleep slf) (self_jamf_url slf) (self_script_name slf)
            (self_script_path slf) cid (self_script_category slf)
            (self_script_info slf) (self_script_notes slf) (self_script_priority slf)
            (self_script_parameter4 slf) (self_script_parameter5 slf)
            (self_script_parameter6 slf) (self_script_parameter7 slf)
            (self_script_parameter8 slf) (self_script_parameter9 slf)
            (self_script_parameter10 slf) (self_script_parameter11 slf)
            (self_osrequirements slf) tok oid s))"
  by (simp add: upload_and_report_def bnd_def report_eq split: prod.splits sum.splits)


lemmas eval_defs = prepare_eq resolve_def bnd_def call_auth_def call_lookup_def emit_def lift_def
  ret_def raise_def say_def resolve_category_def resolve_path_def resolve_name_def
  read_inputs_def env_get_def handle_replace_def test_env_def test_world_def basename_def
  SUMMARY_def Let_def

lemma prepare_existing_17:
  "\<exists>slf cid s1. prepare existing_17 \<lparr>env = test_env r, trace = []\<rparr>
       = (Inr (slf, PStr ''token'', cid, PStr ''17''), s1)
     \<and> self_replace slf = handle_replace r \<and> filter is_curl (trace s1) = []"
  by (simp add: eval_defs existing_17_def)



lemma py_int_0: "py_int W (PStr ''0'') = Inr 0"
  by (simp add: py_int_str_def strip_def is_py_space_def digit_val_def is_ascii_def)

lemma upload_for_fail:
  "build_for W slf cid oid s = (Inl e, s') \<Longrightarrow> upload_for W slf tok cid oid s = (Inl e, s')"
  by (simp add: upload_script_def bnd_def)

lemma upload_for_loop:
  "build_for W slf cid oid s = (Inr (json, url), s') \<Longrightarrow>
   upload_for W slf tok cid oid s =
     upload_loop W (self_sleep slf) (self_script_name slf) oid url tok json 0 s'"
  by (simp add: upload_script_def bnd_def)

lemma emits_build_for_quiet_or_json:
  "emits (\<lambda>ev. \<not> is_curl ev \<and> \<not> is_sleep ev) (build_for W slf cid oid)"
  by (rule emits_build_request) simp_all

lemma emits_upload_for_any: "emits (\<lambda>ev. True) (upload_for W slf tok cid oid)"
  by (rule emits_upload_script) simp_all

text \<open>What a call of \<open>upload_script\<close> writes.\<close>

lemma upload_for_writes:
  obtains (none) "filter is_curl (trace (snd (upload_for W slf tok cid oid s))) = filter is_curl (trace s)"
  | (some) m json ep raw contents prio where
      "1 \<le> m" "m \<le> 6"
      "filter is_curl (trace (snd (upload_for W slf tok cid oid s))) = filter is_curl (trace s) @
         map (\<lambda>k. Curl k (request_method oid) (object_url W (self_jamf_url slf) ep oid) tok json)
           [1..<Suc m]"
      "api_endpoints W ''script'' = Inr ep"
      "py_exists W (self_script_path slf) = Inr True"
      "py_open_read W (self_script_path slf) = Inr raw"
      "substitute_assignable_keys W raw = Inr contents"
      "if truthy (self_script_priority slf) then py_upper W (self_script_priority slf) = Inr prio
       else prio = self_script_priority slf"
      "write_json_file W (built_record slf prio cid contents) = Inr json"
      "filter is_write_json (trace (snd (upload_for W slf tok cid oid s))) =
         filter is_write_json (trace s) @ [WriteJson (built_record slf prio cid contents)]"
proof (cases "build_for W slf cid oid s")
  case (Pair r s')
  show ?thesis
  proof (cases r)
    case (Inl e)
    obtain evs where evs: "snd (build_for W slf cid oid s) = s\<lparr>trace := trace s @ evs\<rparr>"
      "list_all (\<lambda>ev. \<not> is_curl ev \<and> \<not> is_sleep ev) evs"
      using emits_build_for_quiet_or_json by (rule emitsD)
    have "filter is_curl evs = []" using evs(2) by (induction evs) auto
    moreover have "upload_for W slf tok cid oid s = (Inl e, s')"
      using Pair Inl by (intro upload_for_fail) simp
    ultimately have "filter is_curl (trace (snd (upload_for W slf tok cid oid s))) = filter is_curl (trace s)"
      using evs(1) Pair by simp
    then show ?thesis by (rule none)
  next
    case (Inr ju)
    obtain json url where ju: "ju = (json, url)" by (cases ju)
    with Pair Inr have b: "build_for W slf cid oid s = (Inr (json, url), s')" by simp
    from build_request_Inr[OF b] obtain raw contents prio ep where f:
      "py_exists W (self_script_path slf) = Inr True"
      "py_open_read W (self_script_path slf) = Inr raw"
      "substitute_assignable_keys W raw = Inr contents"
      "if truthy (self_script_priority slf) then py_upper W (self_script_priority slf) = Inr prio
       else prio = self_script_priority slf"
      "write_json_file W (built_record slf prio cid contents) = Inr json"
      "api_endpoints W ''script'' = Inr ep"
      "url = object_url W (self_jamf_url slf) ep oid"
      "s' = s\<lparr>trace := trace s @
        [Output (PStr ''Script data:'') 2,
         Output (built_record slf prio cid contents) 2,
         WriteJson (built_record slf prio cid contents),
         Output (PStr ''Uploading script..'') 1]\<rparr>"
      by blast
    have u: "upload_for W slf tok cid oid s =
        upload_loop W (self_sleep slf) (self_script_name slf) oid url tok json 0 s'"
      using b by (rule upload_for_loop)
    obtain m where m: "m \<ge> 1" "0 + m \<le> 6"
      "filter is_curl (trace (snd (upload_loop W (self_sleep slf) (self_script_name slf) oid url tok json 0 s'))) =
       filter is_curl (trace s') @
       map (\<lambda>k. Curl k (request_method oid) url tok json) [Suc 0..<Suc (0 + m)]"
      using upload_loop_curls[of 0 W "self_sleep slf" "self_script_name slf" oid url tok json s']
      by auto
    obtain evs where evs:
      "snd (upload_loop W (self_sleep slf) (self_script_name slf) oid url tok json 0 s') =
         s'\<lparr>trace := trace s' @ evs\<rparr>"
      "list_all (\<lambda>ev. \<not> is_write_json ev) evs"
    proof -
      have "emits (\<lambda>ev. \<not> is_write_json ev)
              (upload_loop W (self_sleep slf) (self_script_name slf) oid url tok json 0)"
        by (rule emits_upload_loop) simp_all
      then show ?thesis using that by (rule emitsD)
    qed
    have nj: "filter is_write_json evs = []" using evs(2) by (induction evs) auto
    show ?thesis
    proof (rule some[of m ep json raw contents prio])
      show "1 \<le> m" "m \<le> 6" using m by simp_all
      show "filter is_curl (trace (snd (upload_for W slf tok cid oid s))) = filter is_curl (trace s) @
         map (\<lambda>k. Curl k (request_method oid) (object_url W (self_jamf_url slf) ep oid) tok json)
           [1..<Suc m]"
        using m(3) u f(7,8) by simp
      show "filter is_write_json (trace (snd (upload_for W slf tok cid oid s))) =
         filter is_write_json (trace s) @ [WriteJson (built_record slf prio cid contents)]"
        using u evs(1) nj f(8) by simp
    qed (use f in simp_all)
  qed
qed


lemma prepare_init:
  obtains evs where
    "snd (prepare W \<lparr>env = e, trace = []\<rparr>) =
       \<lparr>env = e(SUMMARY := None),
        trace = Auth (env_get e ''JSS_URL'') (env_get e ''API_USERNAME'') (env_get e ''API_PASSWORD'') # evs\<rparr>"
    "list_all quiet evs"
  using prepare_state[of quiet W "\<lparr>env = e, trace = []\<rparr>"] by auto

lemma run_cases:
  obtains (aborted) err s1 where
      "prepare W \<lparr>env = e, trace = []\<rparr> = (Inl err, s1)" "run W e = (Inl err, s1)"
  | (skipped) slf tok cid oid s1 where
      "prepare W \<lparr>env = e, trace = []\<rparr> = (Inr (slf, tok, cid, oid), s1)"
      "truthy oid" "\<not> truthy (self_replace slf)"
      "run W e = (Inr (), s1\<lparr>trace := trace s1 @
         [Output (PStr (py_format W ''Script '{}' already exists: ID {}'' [self_script_name slf, oid])) 1,
          Output (PStr ''Not replacing existing script. Use replace_script='True' to enforce.'') 1]\<rparr>)"
  | (uploading) slf tok cid oid s1 outs where
      "prepare W \<lparr>env = e, trace = []\<rparr> = (Inr (slf, tok, cid, oid), s1)"
      "truthy oid \<longrightarrow> truthy (self_replace slf)"
      "run W e = upload_and_report W slf tok cid oid (s1\<lparr>trace := trace s1 @ outs\<rparr>)"
      "list_all quiet outs"
proof (cases "prepare W \<lparr>env = e, trace = []\<rparr>")
  case (Pair r s1)
  show ?thesis
  proof (cases r)
    case (Inl err)
    with Pair show ?thesis
      by (intro aborted[of err s1]) (simp_all add: run_def main_prepare_Inl)
  next
    case (Inr q)
    obtain slf tok cid oid where q: "q = (slf, tok, cid, oid)" by (cases q)
    with Pair Inr have p: "prepare W \<lparr>env = e, trace = []\<rparr> = (Inr (slf, tok, cid, oid), s1)"
      by simp
    show ?thesis
    proof (cases "truthy oid")
      case False
      have "run W e = upload_and_report W slf tok cid oid (s1\<lparr>trace := trace s1 @ []\<rparr>)"
        unfolding run_def using main_create[OF p False] by simp
      with p False show ?thesis by (intro uploading[of slf tok cid oid s1 "[]"]) simp_all
    next
      case True
      show ?thesis
      proof (cases "truthy (self_replace slf)")
        case False
        with p True show ?thesis
          by (intro skipped[of slf tok cid oid s1]) (simp_all add: run_def main_skip)
      next
        case rep: True
        from main_replace[OF p True rep] p rep show ?thesis
          by (intro uploading[of slf tok cid oid s1
                "[Output (PStr (py_format W ''Script '{}' already exists: ID {}'' [self_script_name slf, oid])) 1,
                  Output (PStr (py_format W ''Replacing existing script as 'replace_script' is set to {}''
                     [self_replace slf])) 1]"]) (simp_all add: run_def)
      qed
    qed
  qed
qed

lemma prepared_trace:
  assumes "prepare W \<lparr>env = e, trace = []\<rparr> = (r, s1)"
  shows "env s1 = e(SUMMARY := None)"
    and "filter is_curl (trace s1) = []"
    and "filter is_sleep (trace s1) = []"
    and "filter is_write_json (trace s1) = []"
    and "\<exists>evs. trace s1 = Auth (env_get e ''JSS_URL'') (env_get e ''API_USERNAME'')
            (env_get e ''API_PASSWORD'') # evs"
proof -
  obtain evs where evs: "snd (prepare W \<lparr>env = e, trace = []\<rparr>) =
       \<lparr>env = e(SUMMARY := None),
        trace = Auth (env_get e ''JSS_URL'') (env_get e ''API_USERNAME'') (env_get e ''API_PASSWORD'') # evs\<rparr>"
    "list_all quiet evs"
    by (rule prepare_init)
  with assms have s1: "s1 = \<lparr>env = e(SUMMARY := None),
        trace = Auth (env_get e ''JSS_URL'') (env_get e ''API_USERNAME'') (env_get e ''API_PASSWORD'') # evs\<rparr>"
    by simp
  show "env s1 = e(SUMMARY := None)" using s1 by simp
  show "filter is_curl (trace s1) = []" "filter is_sleep (trace s1) = []"
    "filter is_write_json (trace s1) = []"
    using s1 quiet_filters[OF evs(2)] by simp_all
  show "\<exists>evs. trace s1 = Auth (env_get e ''JSS_URL'') (env_get e ''API_USERNAME'')
            (env_get e ''API_PASSWORD'') # evs"
    using s1 by simp
qed

lemma skip_run:
  assumes prep: "prepare W \<lparr>env = e, trace = []\<rparr> = (Inr (slf, tok, cid, oid), s1)"
    and present: "truthy oid"
    and keep: "\<not> truthy (self_replace slf)"
  shows "fst (run W e) = Inr ()" and "filter is_curl (trace (snd (run W e))) = []"
    and "env (snd (run W e)) = e(SUMMARY := None)"
proof -
  have "run W e = (Inr (), s1\<lparr>trace := trace s1 @
     [Output (PStr (py_format W ''Script '{}' already exists: ID {}'' [self_script_name slf, oid])) 1,
      Output (PStr ''Not replacing existing script. Use replace_script='True' to enforce.'') 1]\<rparr>)"
    unfolding run_def by (rule main_skip[OF prep present keep])
  then show "fst (run W e) = Inr ()" "filter is_curl (trace (snd (run W e))) = []"
    "env (snd (run W e)) = e(SUMMARY := None)"
    using prepared_trace[OF prep] by simp_all
qed

lemma run_env:
  "env (snd (run W e)) = e(SUMMARY := None) \<or>
   (\<exists>slf. fst (run W e) = Inr () \<and>
      env (snd (run W e)) = e(SUMMARY := None, ''script_name'' \<mapsto> self_script_name slf,
        ''script_uploaded'' \<mapsto> PBool True, SUMMARY \<mapsto> summary_result W slf))"
proof (cases rule: run_cases[of W e])
  case (aborted err s1)
  then show ?thesis using prepared_trace(1)[OF aborted(1)] by simp
next
  case (skipped slf tok cid oid s1)
  then show ?thesis using prepared_trace(1)[OF skipped(1)] by simp
next
  case (uploading slf tok cid oid s1 outs)
  let ?s2 = "s1\<lparr>trace := trace s1 @ outs\<rparr>"
  obtain evs where evs: "snd (upload_for W slf tok cid oid ?s2) = ?s2\<lparr>trace := trace ?s2 @ evs\<rparr>"
    using emits_upload_for_any by (rule emitsD)
  show ?thesis
  proof (cases "upload_for W slf tok cid oid ?s2")
    case (Pair r s3)
    with evs have s3: "env s3 = e(SUMMARY := None)"
      using prepared_trace(1)[OF uploading(1)] by simp
    show ?thesis
    proof (cases r)
      case (Inl err)
      with Pair have "upload_and_report W slf tok cid oid ?s2 = (Inl err, s3)"
        by (intro upload_and_report_Inl) simp
      with uploading(3) s3 show ?thesis by simp
    next
      case (Inr resp)
      with Pair have "upload_and_report W slf tok cid oid ?s2 =
        (Inr (), s3\<lparr>env := (env s3)(''script_name'' \<mapsto> self_script_name slf,
           ''script_uploaded'' \<mapsto> PBool True, SUMMARY \<mapsto> summary_result W slf)\<rparr>)"
        by (intro upload_and_report_Inr) simp
      with uploading(3) s3 show ?thesis by (intro disjI2 exI[of _ slf]) simp
    qed
  qed
qed

lemmas run_defs = run_def main_def eval_defs upload_and_report_def upload_script_def
  build_request_def call_write_json_def call_curl_def object_url_def request_method_def
  upload_attempt_def retry_sleep_def call_sleep_def report_def env_set_def upper_char_def
  is_lower_def is_ascii_def
  script_record_def existing_17_def never_ok_def

lemma run_existing_17_replace:
  "filter is_curl (trace (snd (run existing_17 (test_env (PBool True))))) =
     [Curl 1 ''PUT'' ''{}/{}/{}'' (PStr ''token'') (PStr ''/tmp/jamf_upload.json'')]"
  by (simp add: run_defs upload_loop.simps)


lemmas int_defs = py_int_str_def strip_def is_py_space_def digit_val_def is_ascii_def

lemma run_never_ok:
  "fst (run never_ok (test_env PNone)) = Inl (ProcessorError ''ERROR: Script upload failed '') \<and>
   filter is_curl (trace (snd (run never_ok (test_env PNone)))) =
     map (\<lambda>k. Curl k ''POST'' ''{}/{}'' (PStr ''token'') (PStr ''/tmp/jamf_upload.json''))
       [1, 2, 3, 4, 5, 6] \<and>
   filter is_sleep (trace (snd (run never_ok (test_env PNone)))) =
     [Sleep 30, Sleep 30, Sleep 30, Sleep 30, Sleep 30]"
  by (simp add: run_defs int_defs upload_loop.simps)

lemma handle_replace_false_like:
  "truthy (handle_replace v) = (\<not> false_like v)"
  "\<not> false_like v \<Longrightarrow> handle_replace v = v"
  by (cases v; auto simp: handle_replace_def false_like_def)+

lemma run_writes_cases:
  obtains (none) "filter is_curl (trace (snd (run W e))) = []"
  | (some) slf tok cid oid s1 m json ep raw contents prio where
      "prepare W \<lparr>env = e, trace = []\<rparr> = (Inr (slf, tok, cid, oid), s1)"
      "truthy oid \<longrightarrow> truthy (self_replace slf)"
      "1 \<le> m" "m \<le> 6"
      "filter is_curl (trace (snd (run W e))) =
         map (\<lambda>k. Curl k (request_method oid) (object_url W (self_jamf_url slf) ep oid) tok json)
           [1..<Suc m]"
      "api_endpoints W ''script'' = Inr ep"
      "py_exists W (self_script_path slf) = Inr True"
      "py_open_read W (self_script_path slf) = Inr raw"
      "substitute_assignable_keys W raw = Inr contents"
      "if truthy (self_script_priority slf) then py_upper W (self_script_priority slf) = Inr prio
       else prio = self_script_priority slf"
      "write_json_file W (built_record slf prio cid contents) = Inr json"
      "filter is_write_json (trace (snd (run W e))) = [WriteJson (built_record slf prio cid contents)]"
proof (cases rule: run_cases[of W e])
  case (aborted err s1)
  then show ?thesis using prepared_trace(2)[OF aborted(1)] by (intro none) simp
next
  case (skipped slf tok cid oid s1)
  then show ?thesis using prepared_trace(2)[OF skipped(1)] by (intro none) simp
next
  case (uploading slf tok cid oid s1 outs)
  let ?s2 = "s1\<lparr>trace := trace s1 @ outs\<rparr>"
  note q = quiet_filters[OF uploading(4)] prepared_trace(2,4)[OF uploading(1)]
  have tr: "trace (snd (run W e)) = trace (snd (upload_for W slf tok cid oid ?s2))"
    using uploading(3) by (simp add: upload_and_report_trace)
  show ?thesis
  proof (cases rule: upload_for_writes[where W=W and slf=slf and tok=tok and cid=cid and oid=oid and s="?s2"])
    case none': none
    then show ?thesis using tr q by (intro none) simp
  next
    case (some m json ep raw contents prio)
    show ?thesis
    proof (rule that(2)[of slf tok cid oid s1 m ep json raw contents prio])
      show "filter is_curl (trace (snd (run W e))) =
         map (\<lambda>k. Curl k (request_method oid) (object_url W (self_jamf_url slf) ep oid) tok json)
           [1..<Suc m]"
        using some(3) tr q by simp
      show "filter is_write_json (trace (snd (run W e))) = [WriteJson (built_record slf prio cid contents)]"
        using some(10) tr q by simp
    qed (use uploading some in simp_all)
  qed
qed



lemma written_append [simp]: "written (a @ b) = written a @ written b"
  by (induction a rule: written.induct) simp_all

lemma written_filter: "written evs = written (filter is_write_json evs)"
  by (induction evs rule: written.induct) simp_all

lemma written_quiet: "list_all quiet evs \<Longrightarrow> written evs = []"
  by (induction evs rule: written.induct) simp_all

lemma written_all:
  "list_all (\<lambda>ev. case ev of WriteJson d \<Rightarrow> Q d | _ \<Rightarrow> True) evs \<Longrightarrow> list_all Q (written evs)"
  by (induction evs rule: written.induct) simp_all

lemma run_written_all:
  assumes rec: "\<And>slf tok cid oid s1 prio contents.
      prepare W \<lparr>env = e, trace = []\<rparr> = (Inr (slf, tok, cid, oid), s1) \<Longrightarrow>
      Q (built_record slf prio cid contents)"
  shows "list_all Q (written (trace (snd (run W e))))"
proof (cases rule: run_cases[of W e])
  case (aborted err s1)
  obtain evs where "snd (prepare W \<lparr>env = e, trace = []\<rparr>) =
       \<lparr>env = e(SUMMARY := None),
        trace = Auth (env_get e ''JSS_URL'') (env_get e ''API_USERNAME'') (env_get e ''API_PASSWORD'') # evs\<rparr>"
    "list_all quiet evs" by (rule prepare_init)
  with aborted show ?thesis by (simp add: written_quiet)
next
  case (skipped slf tok cid oid s1)
  obtain evs where "snd (prepare W \<lparr>env = e, trace = []\<rparr>) =
       \<lparr>env = e(SUMMARY := None),
        trace = Auth (env_get e ''JSS_URL'') (env_get e ''API_USERNAME'') (env_get e ''API_PASSWORD'') # evs\<rparr>"
    "list_all quiet evs" by (rule prepare_init)
  with skipped show ?thesis by (simp add: written_quiet)
next
  case (uploading slf tok cid oid s1 outs)
  let ?s2 = "s1\<lparr>trace := trace s1 @ outs\<rparr>"
  obtain evs where s1: "snd (prepare W \<lparr>env = e, trace = []\<rparr>) =
       \<lparr>env = e(SUMMARY := None),
        trace = Auth (env_get e ''JSS_URL'') (env_get e ''API_USERNAME'') (env_get e ''API_PASSWORD'') # evs\<rparr>"
    "list_all quiet evs" by (rule prepare_init)
  have tr: "trace (snd (run W e)) = trace (snd (upload_for W slf tok cid oid ?s2))"
    using uploading(3) by (simp add: upload_and_report_trace)
  have "emits (\<lambda>ev. case ev of WriteJson d \<Rightarrow> Q d | _ \<Rightarrow> True) (upload_for W slf tok cid oid)"
    by (rule emits_upload_script) (simp_all add: rec[OF uploading(1)])
  then obtain evs' where evs': "snd (upload_for W slf tok cid oid ?s2) = ?s2\<lparr>trace := trace ?s2 @ evs'\<rparr>"
    "list_all (\<lambda>ev. case ev of WriteJson d \<Rightarrow> Q d | _ \<Rightarrow> True) evs'"
    by (rule emitsD)
  have "written (trace (snd (run W e))) = written evs'"
    using tr evs'(1) s1 uploading(1,4) by (simp add: written_quiet)
  then show ?thesis using written_all[OF evs'(2)] by simp
qed

lemma curl_data_all:
  "list_all (\<lambda>ev. case ev of Curl k rq u t d \<Rightarrow> d = json | _ \<Rightarrow> True) (filter is_curl evs) \<Longrightarrow>
   list_all (\<lambda>ev. case ev of Curl k rq u t d \<Rightarrow> d = json | _ \<Rightarrow> True) evs"
  by (induction evs) (auto split: event.splits)

lemma call_auth_eq:
  "call_auth W url user pw s = (handle_uapi_auth W url user pw, s\<lparr>trace := trace s @ [Auth url user pw]\<rparr>)"
  by (cases "handle_uapi_auth W url user pw") (simp_all add: call_auth_def bnd_def emit_def lift_def)

lemma call_lookup_eq:
  "call_lookup W url t n tok s =
     (get_uapi_obj_id_from_name W url t n tok, s\<lparr>trace := trace s @ [Lookup url t n tok]\<rparr>)"
  by (cases "get_uapi_obj_id_from_name W url t n tok")
    (simp_all add: call_lookup_def bnd_def emit_def lift_def)

lemma resolve_category_returns:
  assumes "\<And>n. \<exists>v. get_uapi_obj_id_from_name W url ''category'' n tok = Inr v"
  shows "\<exists>r s'. resolve_category W url cat tok s = (Inr r, s')"
proof -
  from assms[of cat] obtain v where "get_uapi_obj_id_from_name W url ''category'' cat tok = Inr v"
    by blast
  then show ?thesis
    by (simp add: resolve_category_def bnd_def say_def emit_def call_lookup_eq ret_def)
qed

lemma resolve_path_str:
  "resolve_path W (PStr p) s =
     (if CHR ''/'' \<in> set p then (Inr (PStr p), s)
      else case get_path_to_file W (PStr p) of
             Inl err \<Rightarrow> (Inl err, s)
           | Inr v \<Rightarrow> if truthy v then (Inr v, s)
                      else (Inl (ProcessorError (py_format W ''ERROR: Script file {} not found'' [PStr p])), s))"
  by (simp add: resolve_path_def bnd_def lift_def ret_def raise_def split: sum.splits)

lemma resolve_name_str:
  "\<exists>n. resolve_name name (PStr q) s = (Inr n, s)"
  by (simp add: resolve_name_def lift_def ret_def)

lemma resolve_Inl:
  assumes r: "resolve W slf s = (Inl err, s1)"
    and auth: "handle_uapi_auth W (self_jamf_url slf) (self_jamf_user slf) (self_jamf_password slf) = Inr tok"
    and look: "\<And>t n. \<exists>v. get_uapi_obj_id_from_name W (self_jamf_url slf) t n tok = Inr v"
    and path: "self_script_path slf = PStr p"
    and tmpl: "CHR ''/'' \<notin> set p \<Longrightarrow>
                 \<exists>v. get_path_to_file W (PStr p) = Inr v \<and> (\<not> truthy v \<or> (\<exists>q. v = PStr q))"
  shows "CHR ''/'' \<notin> set p \<and>
         err = ProcessorError (py_format W ''ERROR: Script file {} not found'' [PStr p])"
proof -
  let ?sa = "s\<lparr>trace := trace s @ [Auth (self_jamf_url slf) (self_jamf_user slf) (self_jamf_password slf)]\<rparr>"
  have au: "call_auth W (self_jamf_url slf) (self_jamf_user slf) (self_jamf_password slf) s
      = (Inr tok, ?sa)"
    using call_auth_eq[of W "self_jamf_url slf" "self_jamf_user slf" "self_jamf_password slf" s] auth
    by simp
  obtain sc cid sb where cat: "resolve_category W (self_jamf_url slf) (self_script_category slf) tok ?sa
      = (Inr (sc, cid), sb)"
    using resolve_category_returns[of W "self_jamf_url slf" tok "self_script_category slf" ?sa] look
    by auto
  have done_with: "\<exists>x s'. resolve W slf s = (Inr x, s')"
    if rp: "resolve_path W (PStr p) sb = (Inr (PStr q), sb)" for q
  proof -
    obtain n where n: "resolve_name (self_script_name slf) (PStr q) sb = (Inr n, sb)"
      using resolve_name_str by blast
    obtain v where v: "get_uapi_obj_id_from_name W (self_jamf_url slf) ''script'' n tok = Inr v"
      using look by blast
    show ?thesis
      unfolding resolve_def
      by (simp add: bnd_def au cat path rp n say_def emit_def call_lookup_eq v ret_def Let_def)
  qed
  show ?thesis
  proof (cases "CHR ''/'' \<in> set p")
    case True
    then have "resolve_path W (PStr p) sb = (Inr (PStr p), sb)" by (simp add: resolve_path_str)
    from done_with[OF this] r show ?thesis by simp
  next
    case False
    from tmpl[OF False] obtain v where v: "get_path_to_file W (PStr p) = Inr v"
      "\<not> truthy v \<or> (\<exists>q. v = PStr q)" by blast
    show ?thesis
    proof (cases "truthy v")
      case nt: False
      have rp: "resolve_path W (PStr p) sb =
          (Inl (ProcessorError (py_format W ''ERROR: Script file {} not found'' [PStr p])), sb)"
        using False v nt by (simp add: resolve_path_str)
      have "resolve W slf s = (Inl (ProcessorError (py_format W ''ERROR: Script file {} not found'' [PStr p])), sb)"
        unfolding resolve_def
        by (simp add: bnd_def au cat path rp Let_def)
      with r False show ?thesis by simp
    next
      case t: True
      with v obtain q where q: "v = PStr q" by blast
      have "resolve_path W (PStr p) sb = (Inr (PStr q), sb)"
        using False v t q by (simp add: resolve_path_str)
      from done_with[OF this] r show ?thesis by simp
    qed
  qed
qed

lemma basename_nonempty: "p \<noteq> [] \<Longrightarrow> last p \<noteq> CHR ''/'' \<Longrightarrow> basename p \<noteq> []"
  by (cases p rule: rev_cases) (simp_all add: basename_def)

section \<open>The claims\<close>

text \<open>
  C1. With a classifier that never answers \<^verbatim>\<open>"break"\<close>, the loop of
  \<^verbatim>\<open>upload_script\<close> is claimed to make exactly five HTTP writes and never a
  sixth. It makes six: the test \<^verbatim>\<open>count > 5\<close> comes after the write of the
  pass in which \<open>count\<close> is 6. The writes are numbered 1 to 6, five pauses lie
  between them, and the loop then raises \<^verbatim>\<open>ProcessorError\<close>. The pause is
  \<open>max n 30\<close> seconds for \<open>n\<close> the integer value of the configured sleep, and
  \<^verbatim>\<open>time.sleep\<close> is taken to return from it.
\<close>

theorem retryable_six_writes:
  assumes retry: "\<And>k. \<exists>r v. curl W k (request_method obj_id) url token script_json = Inr r
            \<and> status_check W r ''Script'' script_name (request_method obj_id) = Inr v
            \<and> v \<noteq> PStr ''break''"
    and slp: "py_int W slp = Inr n"
    and slept: "time_sleep W (max n 30) = Inr ()"
  shows "\<exists>evs.
     upload_loop W slp script_name obj_id url token script_json 0 s =
       (Inl (ProcessorError ''ERROR: Script upload failed ''), s\<lparr>trace := trace s @ evs\<rparr>)
     \<and> filter is_curl evs =
         map (\<lambda>k. Curl k (request_method obj_id) url token script_json) [1, 2, 3, 4, 5, 6]
     \<and> filter is_sleep evs = replicate 5 (Sleep (max n 30))"
proof -
  have "[Suc 0..<7] = [1, 2, 3, 4, 5, 6]" by (simp add: upt_rec)
  with upload_loop_retry_from[OF retry slp slept, of 0 s] show ?thesis by simp
qed

theorem retryable_six_writes_witness:
  "\<exists>evs.
     upload_loop never_ok (PStr ''0'') (PStr ''hello.sh'') PNone ''https://jss.example.com/api/v1/scripts''
       (PStr ''token'') (PStr ''/tmp/jamf_upload.json'') 0 \<lparr>env = Map.empty, trace = []\<rparr> =
       (Inl (ProcessorError ''ERROR: Script upload failed ''), \<lparr>env = Map.empty, trace = evs\<rparr>)
     \<and> length (filter is_curl evs) = 6 \<and> length (filter is_sleep evs) = 5"
proof -
  have retry: "\<And>k. \<exists>r v. curl never_ok k (request_method PNone)
        ''https://jss.example.com/api/v1/scripts'' (PStr ''token'') (PStr ''/tmp/jamf_upload.json'') = Inr r
            \<and> status_check never_ok r ''Script'' (PStr ''hello.sh'') (request_method PNone) = Inr v
            \<and> v \<noteq> PStr ''break''"
    by (simp add: never_ok_def test_world_def)
  have slept: "time_sleep never_ok (max 0 30) = Inr ()"
    by (simp add: never_ok_def test_world_def)
  from retryable_six_writes[OF retry py_int_0 slept, of "\<lparr>env = Map.empty, trace = []\<rparr>"]
  obtain evs where
    "upload_loop never_ok (PStr ''0'') (PStr ''hello.sh'') PNone ''https://jss.example.com/api/v1/scripts''
       (PStr ''token'') (PStr ''/tmp/jamf_upload.json'') 0 \<lparr>env = Map.empty, trace = []\<rparr> =
       (Inl (ProcessorError ''ERROR: Script upload failed ''), \<lparr>env = Map.empty, trace = evs\<rparr>)"
    "filter is_curl evs =
         map (\<lambda>k. Curl k (request_method PNone) ''https://jss.example.com/api/v1/scripts''
           (PStr ''token'') (PStr ''/tmp/jamf_upload.json'')) [1, 2, 3, 4, 5, 6]"
    "filter is_sleep evs = replicate 5 (Sleep (max 0 30))"
    by auto
  then show ?thesis by (intro exI[of _ evs]) simp
qed




text \<open>
  C5. When the look-up of the script returns an id and the replace flag is false,
  the invocation ends successfully and no HTTP write is made. The hypothesis
  says that \<^verbatim>\<open>main\<close> got as far as the look-up, which returned \<open>oid\<close>.
\<close>

theorem skip_performs_no_write:
  assumes prep: "prepare W \<lparr>env = e, trace = []\<rparr> = (Inr (slf, tok, cid, oid), s1)"
    and present: "truthy oid"
    and keep: "\<not> truthy (self_replace slf)"
  shows "fst (run W e) = Inr () \<and> filter is_curl (trace (snd (run W e))) = [] \<and>
         get_uapi_obj_id_from_name W (env_get e ''JSS_URL'') ''script'' (self_script_name slf) tok
           = Inr oid \<and>
         self_replace slf = handle_replace (env_get e ''replace_script'')"
  using skip_run(1,2)[OF prep present keep] prepare_Inr(5,7)[OF prep] by simp

theorem skip_performs_no_write_witness:
  "fst (run existing_17 (test_env (PBool False))) = Inr () \<and>
   filter is_curl (trace (snd (run existing_17 (test_env (PBool False))))) = []"
proof -
  obtain slf cid s1 where p: "prepare existing_17 \<lparr>env = test_env (PBool False), trace = []\<rparr>
       = (Inr (slf, PStr ''token'', cid, PStr ''17''), s1)"
    and r: "self_replace slf = handle_replace (PBool False)"
    using prepare_existing_17[of "PBool False"] by blast
  have "truthy (PStr ''17'')" "\<not> truthy (self_replace slf)"
    using r by (simp_all add: handle_replace_def)
  from skip_performs_no_write[OF p this] show ?thesis by simp
qed

text \<open>
  C3. The claim counts the string form of \<^verbatim>\<open>"false"\<close> among the values that
  switch the replace flag off. The code compares with \<^verbatim>\<open>"False"\<close> only: the
  string \<^verbatim>\<open>"false"\<close> is kept, counts as true, and an existing script is
  replaced with a \<^verbatim>\<open>PUT\<close>.
\<close>

theorem lowercase_false_counterexample:
  "handle_replace (PStr ''false'') = PStr ''false'' \<and>
   truthy (handle_replace (PStr ''false'')) \<and>
   fst (run existing_17 (test_env (PStr ''false''))) = Inr () \<and>
   filter is_curl (trace (snd (run existing_17 (test_env (PStr ''false''))))) =
     [Curl 1 ''PUT'' ''{}/{}/{}'' (PStr ''token'') (PStr ''/tmp/jamf_upload.json'')]"
  by (simp add: run_defs upload_loop.simps)

text \<open>
  C3, amended. The replace flag is off exactly for the values Python reads as
  false and for the string \<^verbatim>\<open>"False"\<close>, spelt so. With an existing script such
  a value ends the invocation without a write (Skip); any other value, the
  string \<^verbatim>\<open>"false"\<close> among them, is kept as it is and the invocation goes on to
  \<open>upload_and_report\<close> with the id found (Update).
\<close>

theorem replace_flag_false_like:
  assumes prep: "prepare W \<lparr>env = e, trace = []\<rparr> = (Inr (slf, tok, cid, oid), s1)"
    and present: "truthy oid"
  shows "(false_like (env_get e ''replace_script'') \<longrightarrow>
            fst (run W e) = Inr () \<and> filter is_curl (trace (snd (run W e))) = []) \<and>
         (\<not> false_like (env_get e ''replace_script'') \<longrightarrow>
            self_replace slf = env_get e ''replace_script'' \<and>
            run W e = upload_and_report W slf tok cid oid (s1\<lparr>trace := trace s1 @
              [Output (PStr (py_format W ''Script '{}' already exists: ID {}''
                               [self_script_name slf, oid])) 1,
               Output (PStr (py_format W
                  ''Replacing existing script as 'replace_script' is set to {}''
                  [self_replace slf])) 1]\<rparr>)) \<and>
         truthy (handle_replace v) = (\<not> false_like v)"
proof -
  note r = prepare_Inr(7)[OF prep]
  have "false_like (env_get e ''replace_script'') \<Longrightarrow>
          fst (run W e) = Inr () \<and> filter is_curl (trace (snd (run W e))) = []"
    using skip_run(1,2)[OF prep present] r handle_replace_false_like(1) by simp
  moreover have "self_replace slf = env_get e ''replace_script'' \<and>
            run W e = upload_and_report W slf tok cid oid (s1\<lparr>trace := trace s1 @
              [Output (PStr (py_format W ''Script '{}' already exists: ID {}''
                               [self_script_name slf, oid])) 1,
               Output (PStr (py_format W
                  ''Replacing existing script as 'replace_script' is set to {}''
                  [self_replace slf])) 1]\<rparr>)"
    if nf: "\<not> false_like (env_get e ''replace_script'')"
  proof -
    have same: "self_replace slf = env_get e ''replace_script''"
      using r handle_replace_false_like(2)[OF nf] by simp
    have "truthy (handle_replace (env_get e ''replace_script''))"
      using nf by (simp only: handle_replace_false_like(1) simp_thms)
    then have "truthy (self_replace slf)" using r by simp
    from main_replace[OF prep present this] same show ?thesis
      unfolding run_def by simp
  qed
  ultimately show ?thesis using handle_replace_false_like(1) by blast
qed

theorem replace_flag_false_like_witness:
  "false_like (PStr ''False'') \<and>
   fst (run existing_17 (test_env (PStr ''False''))) = Inr () \<and>
   filter is_curl (trace (snd (run existing_17 (test_env (PStr ''False''))))) = [] \<and>
   \<not> false_like (PStr ''false'') \<and>
   (\<exists>slf cid s. self_replace slf = PStr ''false'' \<and>
      run existing_17 (test_env (PStr ''false'')) =
        upload_and_report existing_17 slf (PStr ''token'') cid (PStr ''17'') s)"
proof -
  obtain slf cid s1 where p: "prepare existing_17 \<lparr>env = test_env (PStr ''False''), trace = []\<rparr>
       = (Inr (slf, PStr ''token'', cid, PStr ''17''), s1)"
    using prepare_existing_17[of "PStr ''False''"] by blast
  obtain slf' cid' s1' where p': "prepare existing_17 \<lparr>env = test_env (PStr ''false''), trace = []\<rparr>
       = (Inr (slf', PStr ''token'', cid', PStr ''17''), s1')"
    using prepare_existing_17[of "PStr ''false''"] by blast
  have t: "truthy (PStr ''17'')" by simp
  have g: "env_get (test_env r) ''replace_script'' = r" for r
    by (simp add: env_get_def test_env_def)
  have f: "false_like (PStr ''False'')" "\<not> false_like (PStr ''false'')"
    by (simp_all add: false_like_def)
  from replace_flag_false_like[OF p t] replace_flag_false_like[OF p' t] f show ?thesis
    unfolding g by blast
qed

text \<open>
  C10. Every invocation removes a summary result found in the environment: at
  its end the entry is either absent or the one a successful upload has just
  written. A skipped invocation ends successfully with the environment otherwise
  as it found it, so it sets neither \<^verbatim>\<open>script_name\<close> nor
  \<^verbatim>\<open>script_uploaded\<close> and leaves no summary result.
\<close>

theorem skip_leaves_no_summary:
  assumes prep: "prepare W \<lparr>env = e, trace = []\<rparr> = (Inr (slf, tok, cid, oid), s1)"
    and present: "truthy oid"
    and keep: "\<not> truthy (self_replace slf)"
  shows "fst (run W e) = Inr () \<and> env (snd (run W e)) = e(SUMMARY := None) \<and>
         (env (snd (run W' e')) = e'(SUMMARY := None) \<or>
          (\<exists>slf'. fst (run W' e') = Inr () \<and>
             env (snd (run W' e')) = e'(SUMMARY := None,
               ''script_name'' \<mapsto> self_script_name slf',
               ''script_uploaded'' \<mapsto> PBool True,
               SUMMARY \<mapsto> summary_result W' slf')))"
  using skip_run(1,3)[OF prep present keep] run_env[of W' e'] by simp

theorem skip_leaves_no_summary_witness:
  "test_env (PBool False) SUMMARY = Some (PDict []) \<and>
   fst (run existing_17 (test_env (PBool False))) = Inr () \<and>
   env (snd (run existing_17 (test_env (PBool False)))) SUMMARY = None \<and>
   env (snd (run existing_17 (test_env (PBool False)))) ''script_name'' = None \<and>
   env (snd (run existing_17 (test_env (PBool False)))) ''script_uploaded'' = None"
proof -
  obtain slf cid s1 where p: "prepare existing_17 \<lparr>env = test_env (PBool False), trace = []\<rparr>
       = (Inr (slf, PStr ''token'', cid, PStr ''17''), s1)"
    and r: "self_replace slf = handle_replace (PBool False)"
    using prepare_existing_17[of "PBool False"] by blast
  have "truthy (PStr ''17'')" "\<not> truthy (self_replace slf)"
    using r by (simp_all add: handle_replace_def)
  from skip_leaves_no_summary[OF p this]
  have "fst (run existing_17 (test_env (PBool False))) = Inr ()"
    "env (snd (run existing_17 (test_env (PBool False)))) = (test_env (PBool False))(SUMMARY := None)"
    by simp_all
  then show ?thesis by (simp add: test_env_def SUMMARY_def)
qed

text \<open>
  C6. Every HTTP write of an invocation uses one method and one URL: with an id
  found (and so, since writes were made, with the replace flag true) the method
  is \<^verbatim>\<open>PUT\<close> and the URL is the endpoint followed by the id; with no id the
  method is \<^verbatim>\<open>POST\<close> and the URL is the endpoint alone. The writes are
  numbered 1, 2, ..., at most 6, one per pass of the loop: a pass makes exactly
  one write.
\<close>

theorem writes_put_or_post:
  assumes prep: "prepare W \<lparr>env = e, trace = []\<rparr> = (Inr (slf, tok, cid, oid), s1)"
  shows "(\<exists>m json ep. m \<le> 6 \<and>
            filter is_curl (trace (snd (run W e))) =
              map (\<lambda>k. Curl k (request_method oid) (object_url W (self_jamf_url slf) ep oid) tok json)
                [1..<Suc m] \<and>
            (0 < m \<longrightarrow> api_endpoints W ''script'' = Inr ep \<and>
                       (truthy oid \<longrightarrow> truthy (self_replace slf)))) \<and>
         (truthy oid \<longrightarrow> request_method oid = ''PUT'' \<and>
            object_url W url ep' oid = py_format W ''{}/{}/{}'' [url, ep', oid]) \<and>
         (\<not> truthy oid \<longrightarrow> request_method oid = ''POST'' \<and>
            object_url W url ep' oid = py_format W ''{}/{}'' [url, ep']) \<and>
         filter is_curl (trace (snd (upload_attempt W slp name oid url' tok json' k s))) =
           filter is_curl (trace s) @ [Curl k (request_method oid) url' tok json']"
proof -
  have "\<exists>m json ep. m \<le> 6 \<and>
            filter is_curl (trace (snd (run W e))) =
              map (\<lambda>k. Curl k (request_method oid) (object_url W (self_jamf_url slf) ep oid) tok json)
                [1..<Suc m] \<and>
            (0 < m \<longrightarrow> api_endpoints W ''script'' = Inr ep \<and>
                       (truthy oid \<longrightarrow> truthy (self_replace slf)))"
  proof (cases rule: run_writes_cases[of W e])
    case none
    then show ?thesis by (intro exI[of _ 0]) simp
  next
    case (some slf' tok' cid' oid' s1' m json ep raw contents prio)
    from some(1) prep have eq: "slf' = slf" "tok' = tok" "cid' = cid" "oid' = oid" by simp_all
    show ?thesis
      using some(2-6) unfolding eq by (intro exI[of _ m] exI[of _ json] exI[of _ ep]) simp
  qed
  then show ?thesis
    by (simp add: request_method_def object_url_def upload_attempt_curl)
qed

theorem writes_put_or_post_witness:
  "filter is_curl (trace (snd (run existing_17 (test_env (PBool True))))) =
     [Curl 1 ''PUT'' (py_format existing_17 ''{}/{}/{}''
        [PStr ''https://jss.example.com'', PStr ''api/v1/scripts'', PStr ''17''])
        (PStr ''token'') (PStr ''/tmp/jamf_upload.json'')] \<and>
   request_method (PStr ''17'') = ''PUT''"
proof -
  obtain slf cid s1 where p: "prepare existing_17 \<lparr>env = test_env (PBool True), trace = []\<rparr>
       = (Inr (slf, PStr ''token'', cid, PStr ''17''), s1)"
    using prepare_existing_17[of "PBool True"] by blast
  have "request_method (PStr ''17'') = ''PUT''"
    using writes_put_or_post[OF p] by simp
  moreover have "py_format existing_17 ''{}/{}/{}''
        [PStr ''https://jss.example.com'', PStr ''api/v1/scripts'', PStr ''17''] = ''{}/{}/{}''"
    by (simp add: existing_17_def test_world_def)
  ultimately show ?thesis using run_existing_17_replace by simp
qed

text \<open>
  C7. When a category name is given and its look-up finds nothing, lines
  276--299 print the warning, take \<^verbatim>\<open>"-1"\<close> as the category id whatever the name
  is, and return normally, so \<^verbatim>\<open>main\<close> goes on; every record the invocation
  then builds carries \<^verbatim>\<open>"-1"\<close> as its \<^verbatim>\<open>categoryId\<close>.
\<close>

theorem category_absent_sentinel:
  assumes named: "truthy cat"
    and absent: "get_uapi_obj_id_from_name W url ''category'' cat tok = Inr v" "\<not> truthy v"
  shows "resolve_category W url cat tok s =
           (Inr (cat, PStr ''-1''), s\<lparr>trace := trace s @
              [Output (PStr (py_format W ''Checking categories for {}'' [cat])) 1,
               Lookup url ''category'' cat tok,
               Output (PStr ''WARNING: Category not found!'') 1]\<rparr>) \<and>
         (env_get e ''script_category'' = cat \<and> env_get e ''JSS_URL'' = url \<and>
          handle_uapi_auth W url (env_get e ''API_USERNAME'') (env_get e ''API_PASSWORD'') = Inr tok
          \<longrightarrow> list_all (\<lambda>d. record_field d ''categoryId'' = Some (PStr ''-1''))
                (written (trace (snd (run W e)))))"
proof -
  have block: "resolve_category W url cat tok s =
           (Inr (cat, PStr ''-1''), s\<lparr>trace := trace s @
              [Output (PStr (py_format W ''Checking categories for {}'' [cat])) 1,
               Lookup url ''category'' cat tok,
               Output (PStr ''WARNING: Category not found!'') 1]\<rparr>)"
    using assms
    by (simp add: resolve_category_def bnd_def say_def emit_def call_lookup_def lift_def ret_def)
  have "list_all (\<lambda>d. record_field d ''categoryId'' = Some (PStr ''-1''))
                (written (trace (snd (run W e))))"
    if e: "env_get e ''script_category'' = cat" "env_get e ''JSS_URL'' = url"
      "handle_uapi_auth W url (env_get e ''API_USERNAME'') (env_get e ''API_PASSWORD'') = Inr tok"
  proof (rule run_written_all)
    fix slf tok' cid oid s1 prio contents
    assume p: "prepare W \<lparr>env = e, trace = []\<rparr> = (Inr (slf, tok', cid, oid), s1)"
    from prepare_Inr(1)[OF p] e have tok: "tok' = tok" by simp
    from prepare_Inr(2)[OF p] e tok obtain sa sb where
      "resolve_category W url cat tok sa = (Inr (self_script_category slf, cid), sb)"
      by auto
    from resolve_category_Inr[OF this] named absent have "cid = PStr ''-1''" by auto
    then show "record_field (built_record slf prio cid contents) ''categoryId'' = Some (PStr ''-1'')"
      by (simp add: script_record_def)
  qed
  with block show ?thesis by blast
qed

theorem category_absent_sentinel_witness:
  "resolve_category existing_17 (PStr ''https://jss.example.com'') (PStr ''Tools'') (PStr ''token'')
     \<lparr>env = Map.empty, trace = []\<rparr> =
     (Inr (PStr ''Tools'', PStr ''-1''), \<lparr>env = Map.empty, trace =
        [Output (PStr ''Checking categories for {}'') 1,
         Lookup (PStr ''https://jss.example.com'') ''category'' (PStr ''Tools'') (PStr ''token''),
         Output (PStr ''WARNING: Category not found!'') 1]\<rparr>) \<and>
   map (\<lambda>d. record_field d ''categoryId'')
     (written (trace (snd (run existing_17 (test_env (PBool True)))))) = [Some (PStr ''-1'')]"
proof -
  have a: "truthy (PStr ''Tools'')"
    "get_uapi_obj_id_from_name existing_17 (PStr ''https://jss.example.com'') ''category''
       (PStr ''Tools'') (PStr ''token'') = Inr PNone"
    "\<not> truthy PNone"
    by (simp_all add: existing_17_def test_world_def)
  have l: "length (written (trace (snd (run existing_17 (test_env (PBool True)))))) = 1"
    by (simp add: run_defs upload_loop.simps)
  have e: "env_get (test_env (PBool True)) ''script_category'' = PStr ''Tools''"
     "env_get (test_env (PBool True)) ''JSS_URL'' = PStr ''https://jss.example.com''"
     "handle_uapi_auth existing_17 (PStr ''https://jss.example.com'')
        (env_get (test_env (PBool True)) ''API_USERNAME'')
        (env_get (test_env (PBool True)) ''API_PASSWORD'') = Inr (PStr ''token'')"
    by (simp_all add: env_get_def test_env_def existing_17_def test_world_def)
  note T = category_absent_sentinel[OF a, of "\<lparr>env = Map.empty, trace = []\<rparr>" "test_env (PBool True)"]
  from T e have all: "list_all (\<lambda>d. record_field d ''categoryId'' = Some (PStr ''-1''))
                (written (trace (snd (run existing_17 (test_env (PBool True))))))"
    by blast
  obtain d where d: "written (trace (snd (run existing_17 (test_env (PBool True))))) = [d]"
    using l by (cases "written (trace (snd (run existing_17 (test_env (PBool True)))))") auto
  from T have "resolve_category existing_17 (PStr ''https://jss.example.com'') (PStr ''Tools'') (PStr ''token'')
     \<lparr>env = Map.empty, trace = []\<rparr> =
     (Inr (PStr ''Tools'', PStr ''-1''), \<lparr>env = Map.empty, trace =
        [Output (PStr ''Checking categories for {}'') 1,
         Lookup (PStr ''https://jss.example.com'') ''category'' (PStr ''Tools'') (PStr ''token''),
         Output (PStr ''WARNING: Category not found!'') 1]\<rparr>)"
    by (simp add: existing_17_def test_world_def)
  with all d show ?thesis by simp
qed



text \<open>
  C2. The claim is that a missing script file aborts the invocation before any
  network call. It does not: the file is looked at last. With the path
  \<^verbatim>\<open>/recipes/hello.sh\<close> missing, the invocation authenticates, looks up the
  category and the script, and only then fails.
\<close>

theorem missing_file_counterexample:
  "fst (run missing_file (test_env PNone)) = Inl (ProcessorError ''Script does not exist!'') \<and>
   filter is_network (trace (snd (run missing_file (test_env PNone)))) =
     [Auth (PStr ''https://jss.example.com'') (PStr ''api'') (PStr ''secret''),
      Lookup (PStr ''https://jss.example.com'') ''category'' (PStr ''Tools'') (PStr ''token''),
      Lookup (PStr ''https://jss.example.com'') ''script'' (PStr ''hello.sh'') (PStr ''token'')]"
  by (simp add: run_defs missing_file_def)

text \<open>
  C2, amended. Take a script path that is a string and does not resolve to an
  existing file: it contains \<^verbatim>\<open>/\<close> and \<^verbatim>\<open>os.path.exists\<close> is false for it, or it
  contains none and \<^verbatim>\<open>get_path_to_file\<close> finds nothing or finds a path for which
  \<^verbatim>\<open>os.path.exists\<close> is false. If authentication and the look-ups return, the
  invocation makes no HTTP write, its first action is the call that
  authenticates, and it ends in a \<^verbatim>\<open>ProcessorError\<close>: \<^verbatim>\<open>Script does not exist!\<close>
  from \<^verbatim>\<open>upload_script\<close>, or the message of line 307 for a path without \<^verbatim>\<open>/\<close>.
  The one exception is an existing script with the replace flag off: that
  invocation is skipped, ends successfully and never looks at the file.
\<close>

theorem missing_file_no_write:
  assumes path: "env_get e ''script_path'' = PStr p"
    and auth: "handle_uapi_auth W (env_get e ''JSS_URL'') (env_get e ''API_USERNAME'')
                 (env_get e ''API_PASSWORD'') = Inr tok"
    and look: "\<And>t n. \<exists>v. get_uapi_obj_id_from_name W (env_get e ''JSS_URL'') t n tok = Inr v"
    and missing: "if CHR ''/'' \<in> set p then py_exists W (PStr p) = Inr False
                  else (\<exists>v. get_path_to_file W (PStr p) = Inr v \<and>
                          (\<not> truthy v \<or> (\<exists>q. v = PStr q \<and> py_exists W (PStr q) = Inr False)))"
  shows "filter is_curl (trace (snd (run W e))) = [] \<and>
         (\<exists>evs. trace (snd (run W e)) =
            Auth (env_get e ''JSS_URL'') (env_get e ''API_USERNAME'') (env_get e ''API_PASSWORD'') # evs) \<and>
         (fst (run W e) = Inl (ProcessorError ''Script does not exist!'') \<or>
          (CHR ''/'' \<notin> set p \<and>
           fst (run W e) =
             Inl (ProcessorError (py_format W ''ERROR: Script file {} not found'' [PStr p]))) \<or>
          (fst (run W e) = Inr () \<and>
           (\<exists>slf cid oid s1.
              prepare W \<lparr>env = e, trace = []\<rparr> = (Inr (slf, tok, cid, oid), s1) \<and>
              truthy oid \<and> \<not> truthy (self_replace slf))))"
proof -
  have gone: "py_exists W (self_script_path slf) = Inr False \<and> tok' = tok"
    if p: "prepare W \<lparr>env = e, trace = []\<rparr> = (Inr (slf, tok', cid, oid), s1)"
    for slf tok' cid oid s1
  proof -
    from prepare_Inr(1)[OF p] auth have tok: "tok' = tok" by simp
    from prepare_Inr(3)[OF p] path obtain sa sb where
      "resolve_path W (PStr p) sa = (Inr (self_script_path slf), sb)" by auto
    from resolve_path_Inr[OF this] missing tok show ?thesis
      by (cases "CHR ''/'' \<in> set p") auto
  qed
  show ?thesis
  proof (cases rule: run_cases[of W e])
    case (aborted err s1)
    let ?slf = "read_inputs e"
    have sel: "self_jamf_url ?slf = env_get e ''JSS_URL''"
      "self_jamf_user ?slf = env_get e ''API_USERNAME''"
      "self_jamf_password ?slf = env_get e ''API_PASSWORD''"
      "self_script_path ?slf = PStr p"
      using path by (simp_all add: read_inputs_def)
    from aborted(1) have r: "resolve W ?slf (\<lparr>env = e, trace = []\<rparr>\<lparr>env := e(SUMMARY := None)\<rparr>)
        = (Inl err, s1)"
      by (simp add: prepare_eq)
    have tmpl: "\<exists>v. get_path_to_file W (PStr p) = Inr v \<and> (\<not> truthy v \<or> (\<exists>q. v = PStr q))"
      if "CHR ''/'' \<notin> set p"
      using missing that by auto
    have "CHR ''/'' \<notin> set p \<and>
          err = ProcessorError (py_format W ''ERROR: Script file {} not found'' [PStr p])"
      using r
    proof (rule resolve_Inl)
      show "handle_uapi_auth W (self_jamf_url ?slf) (self_jamf_user ?slf) (self_jamf_password ?slf)
              = Inr tok"
        using auth by (simp only: sel)
      show "\<exists>v. get_uapi_obj_id_from_name W (self_jamf_url ?slf) t n tok = Inr v" for t n
        using look[of t n] by (simp only: sel)
      show "self_script_path ?slf = PStr p" by (fact sel(4))
      show "\<exists>v. get_path_to_file W (PStr p) = Inr v \<and> (\<not> truthy v \<or> (\<exists>q. v = PStr q))"
        if "CHR ''/'' \<notin> set p"
        using that by (rule tmpl)
    qed
    with aborted(2) prepared_trace(2,5)[OF aborted(1)] show ?thesis by auto
  next
    case (skipped slf tok' cid oid s1)
    from gone[OF skipped(1)] have "tok' = tok" by simp
    with skipped have "fst (run W e) = Inr () \<and>
           (\<exists>slf cid oid s1.
              prepare W \<lparr>env = e, trace = []\<rparr> = (Inr (slf, tok, cid, oid), s1) \<and>
              truthy oid \<and> \<not> truthy (self_replace slf))"
      by auto
    moreover have "filter is_curl (trace (snd (run W e))) = []"
      using skipped(4) prepared_trace(2)[OF skipped(1)] by simp
    moreover have "\<exists>evs. trace (snd (run W e)) =
            Auth (env_get e ''JSS_URL'') (env_get e ''API_USERNAME'') (env_get e ''API_PASSWORD'') # evs"
      using skipped(4) prepared_trace(5)[OF skipped(1)] by auto
    ultimately show ?thesis by blast
  next
    case (uploading slf tok' cid oid s1 outs)
    let ?s2 = "s1\<lparr>trace := trace s1 @ outs\<rparr>"
    from gone[OF uploading(1)]
    have "py_exists W (self_script_path slf) = Inr False" by simp
    then have "build_for W slf cid oid ?s2 = (Inl (ProcessorError ''Script does not exist!''), ?s2)"
      by (rule build_request_missing)
    then have "upload_for W slf tok' cid oid ?s2 = (Inl (ProcessorError ''Script does not exist!''), ?s2)"
      by (rule upload_for_fail)
    then have "upload_and_report W slf tok' cid oid ?s2 =
                 (Inl (ProcessorError ''Script does not exist!''), ?s2)"
      by (rule upload_and_report_Inl)
    with uploading(3) have r: "run W e = (Inl (ProcessorError ''Script does not exist!''), ?s2)"
      by simp
    from prepared_trace(2,5)[OF uploading(1)] quiet_filters[OF uploading(4)] r
    show ?thesis by auto
  qed
qed

theorem missing_file_no_write_witness:
  "env_get (test_env PNone) ''script_path'' = PStr ''/recipes/hello.sh'' \<and>
   py_exists missing_file (PStr ''/recipes/hello.sh'') = Inr False \<and>
   filter is_curl (trace (snd (run missing_file (test_env PNone)))) = [] \<and>
   (\<exists>evs. trace (snd (run missing_file (test_env PNone))) =
      Auth (PStr ''https://jss.example.com'') (PStr ''api'') (PStr ''secret'') # evs) \<and>
   fst (run missing_file (test_env PNone)) = Inl (ProcessorError ''Script does not exist!'')"
proof -
  have a: "env_get (test_env PNone) ''script_path'' = PStr ''/recipes/hello.sh''"
    by (simp add: env_get_def test_env_def)
  have b: "py_exists missing_file (PStr ''/recipes/hello.sh'') = Inr False"
    by (simp add: missing_file_def test_world_def)
  have c: "if CHR ''/'' \<in> set ''/recipes/hello.sh''
           then py_exists missing_file (PStr ''/recipes/hello.sh'') = Inr False
           else (\<exists>v. get_path_to_file missing_file (PStr ''/recipes/hello.sh'') = Inr v \<and>
                   (\<not> truthy v \<or> (\<exists>q. v = PStr q \<and> py_exists missing_file (PStr q) = Inr False)))"
    using b by simp
  have g: "env_get (test_env PNone) ''JSS_URL'' = PStr ''https://jss.example.com''"
    "env_get (test_env PNone) ''API_USERNAME'' = PStr ''api''"
    "env_get (test_env PNone) ''API_PASSWORD'' = PStr ''secret''"
    by (simp_all add: env_get_def test_env_def)
  have au: "handle_uapi_auth missing_file (env_get (test_env PNone) ''JSS_URL'')
              (env_get (test_env PNone) ''API_USERNAME'') (env_get (test_env PNone) ''API_PASSWORD'')
              = Inr (PStr ''token'')"
    by (simp add: missing_file_def test_world_def)
  have lk: "\<exists>v. get_uapi_obj_id_from_name missing_file (env_get (test_env PNone) ''JSS_URL'') t n
              (PStr ''token'') = Inr v" for t n
    by (simp add: missing_file_def test_world_def)
  have sl: "CHR ''/'' \<in> set ''/recipes/hello.sh''" by simp
  have ns: "fst (run missing_file (test_env PNone)) \<noteq> Inr ()"
    by (simp add: run_defs missing_file_def)
  from missing_file_no_write[OF a au lk c] a b sl ns show ?thesis unfolding g by blast
qed

text \<open>
  C9. The claim is that an HTTP write is only attempted with a non-empty name
  and non-empty contents read from an existing file. The contents are not
  checked: with an empty file at \<^verbatim>\<open>/recipes/hello.sh\<close> the record is built with
  empty \<^verbatim>\<open>scriptContents\<close> and posted.
\<close>

theorem empty_contents_counterexample:
  "filter is_curl (trace (snd (run empty_file (test_env PNone)))) =
     [Curl 1 ''POST'' ''{}/{}'' (PStr ''token'') (PStr ''/tmp/jamf_upload.json'')] \<and>
   map (\<lambda>d. record_field d ''scriptContents'')
     (written (trace (snd (run empty_file (test_env PNone))))) = [Some (PStr [])] \<and>
   py_open_read empty_file (PStr ''/recipes/hello.sh'') = Inr []"
  by (simp add: run_defs empty_file_def upload_loop.simps)

text \<open>
  C9, amended. Whenever an HTTP write is attempted, the record's \<^verbatim>\<open>name\<close> is
  non-empty, the script path existed when \<^verbatim>\<open>upload_script\<close> looked, the one
  record built carries as \<^verbatim>\<open>scriptContents\<close> the text read from that file after
  key substitution (which may be empty), and the writes send the JSON file of
  that record.
\<close>

theorem write_sends_file_contents:
  assumes wrote: "filter is_curl (trace (snd (run W e))) \<noteq> []"
  shows "\<exists>slf tok cid oid s1 raw contents prio json.
           prepare W \<lparr>env = e, trace = []\<rparr> = (Inr (slf, tok, cid, oid), s1) \<and>
           py_exists W (self_script_path slf) = Inr True \<and>
           py_open_read W (self_script_path slf) = Inr raw \<and>
           substitute_assignable_keys W raw = Inr contents \<and>
           written (trace (snd (run W e))) = [built_record slf prio cid contents] \<and>
           record_field (built_record slf prio cid contents) ''scriptContents'' = Some (PStr contents) \<and>
           record_field (built_record slf prio cid contents) ''name'' = Some (self_script_name slf) \<and>
           write_json_file W (built_record slf prio cid contents) = Inr json \<and>
           list_all (\<lambda>ev. case ev of Curl k rq u t d \<Rightarrow> d = json | _ \<Rightarrow> True)
             (trace (snd (run W e))) \<and>
           truthy (self_script_name slf)"
proof (cases rule: run_writes_cases[of W e])
  case none
  with wrote show ?thesis by simp
next
  case (some slf tok cid oid s1 m json ep raw contents prio)
  have w: "written (trace (snd (run W e))) = [built_record slf prio cid contents]"
    using some(12) by (subst written_filter) simp
  have c: "list_all (\<lambda>ev. case ev of Curl k rq u t d \<Rightarrow> d = json | _ \<Rightarrow> True)
             (trace (snd (run W e)))"
  proof -
    have "list_all (\<lambda>ev. case ev of Curl k rq u t d \<Rightarrow> d = json | _ \<Rightarrow> True)
            (filter is_curl (trace (snd (run W e))))"
      unfolding some(5) by (simp add: list_all_iff)
    then show ?thesis by (rule curl_data_all)
  qed
  from prepare_Inr(4)[OF some(1)] obtain sa sb where
    "resolve_name (env_get e ''script_name'') (self_script_path slf) sa
       = (Inr (self_script_name slf), sb)" by auto
  from resolve_name_Inr[OF this]
  have n: "truthy (self_script_name slf)"
  proof (cases "truthy (env_get e ''script_name'')")
    case True
    with \<open>if truthy (env_get e ''script_name'') then self_script_name slf = env_get e ''script_name''
          else py_basename (self_script_path slf) = Inr (self_script_name slf)\<close>
    show ?thesis by simp
  next
    case False
    with \<open>if truthy (env_get e ''script_name'') then self_script_name slf = env_get e ''script_name''
          else py_basename (self_script_path slf) = Inr (self_script_name slf)\<close>
    have b: "py_basename (self_script_path slf) = Inr (self_script_name slf)" by simp
    then obtain p where p: "self_script_path slf = PStr p" "self_script_name slf = PStr (basename p)"
      by (cases "self_script_path slf") auto
    from some(8) p(1) have "p \<noteq> [] \<and> last p \<noteq> CHR ''/''"
      by (auto split: if_splits)
    then have "basename p \<noteq> []" by (simp add: basename_nonempty)
    with p show ?thesis by simp
  qed
  have fld: "record_field (built_record slf prio cid contents) ''scriptContents'' = Some (PStr contents)"
    "record_field (built_record slf prio cid contents) ''name'' = Some (self_script_name slf)"
    by (simp_all add: script_record_def)
  show ?thesis
    apply (rule exI[of _ slf], rule exI[of _ tok], rule exI[of _ cid], rule exI[of _ oid],
        rule exI[of _ s1], rule exI[of _ raw], rule exI[of _ contents], rule exI[of _ prio],
        rule exI[of _ json])
    apply (intro conjI)
    apply (fact some(1) some(7) some(8) some(9) some(11) w c n fld)+
    done
qed

theorem write_sends_file_contents_witness:
  "filter is_curl (trace (snd (run existing_17 (test_env (PBool True))))) \<noteq> [] \<and>
   (\<exists>slf prio cid.
      py_exists existing_17 (self_script_path slf) = Inr True \<and>
      py_open_read existing_17 (self_script_path slf) = Inr ''echo hello'' \<and>
      written (trace (snd (run existing_17 (test_env (PBool True))))) =
        [built_record slf prio cid ''echo hello''] \<and>
      truthy (self_script_name slf))"
proof -
  have w: "filter is_curl (trace (snd (run existing_17 (test_env (PBool True))))) \<noteq> []"
    using run_existing_17_replace by simp
  from write_sends_file_contents[OF w] obtain slf tok cid oid s1 raw contents prio json where f:
    "prepare existing_17 \<lparr>env = test_env (PBool True), trace = []\<rparr> = (Inr (slf, tok, cid, oid), s1)"
    "py_exists existing_17 (self_script_path slf) = Inr True"
    "py_open_read existing_17 (self_script_path slf) = Inr raw"
    "substitute_assignable_keys existing_17 raw = Inr contents"
    "written (trace (snd (run existing_17 (test_env (PBool True))))) = [built_record slf prio cid contents]"
    "truthy (self_script_name slf)"
    by blast
  have path: "self_script_path slf = PStr ''/recipes/hello.sh''"
    using f(1) by (simp add: eval_defs existing_17_def) auto
  have raw: "raw = ''echo hello''" "contents = ''echo hello''"
    using f(3,4) by (simp_all add: path existing_17_def test_world_def)
  with w f show ?thesis by blast
qed

end
